theory Spec2Isabelle
  imports Complex_Main "HOL-Library.Log_Nat" "HOL-Library.Sublist"
begin

section \<open>The dashboard page of the study application\<close>

text \<open>
  The development embeds \<^verbatim>\<open>src/app/dashboard/page.tsx\<close>: the derived statistics
  (\<^verbatim>\<open>calculateAccuracy\<close>, \<^verbatim>\<open>calculatePassProbability\<close>, \<^verbatim>\<open>getStreakStatus\<close>), the
  quick-action list, the split of the categories into study and mock categories with
  their percentages, and the two loaders \<^verbatim>\<open>loadUserProgress\<close> and
  \<^verbatim>\<open>loadMockExamHistory\<close>. React state and browser storage are one record that each
  function takes and returns; what a module outside this file does is a field of an
  environment record.
\<close>

subsection \<open>JavaScript numbers\<close>

text \<open>
  A JavaScript number is an IEEE 754 binary64 value. \<open>Finite\<close> carries the exact rational
  value of a finite double; the two zeros are identified. \<open>fl\<close> rounds a rational to the
  nearest value with a 53-bit significand, ties to even, which is what \<^verbatim>\<open>/\<close> and \<^verbatim>\<open>*\<close>
  do to their exact result. The exponent is not bounded here: the stored counters are
  integers of magnitude at most \<open>2 ^ 53\<close>, and quotients of such integers and their
  products with 100 stay inside the normal range of binary64.
\<close>

datatype num = Finite rat | PosInf | NegInf | NaN

text \<open>\<open>expo x\<close> is the binary exponent of \<open>x \<noteq> 0\<close>: \<open>2 powi expo x \<le> \<bar>x\<bar> < 2 powi (expo x + 1)\<close>.\<close>

definition expo :: "rat \<Rightarrow> int" where
  "expo x = (let (p, q) = quotient_of \<bar>x\<bar>; d = bitlen p - bitlen q
             in if 2 powi d \<le> \<bar>x\<bar> then d else d - 1)"

text \<open>Rounding to the nearest integer, a tie going to the even neighbour.\<close>

definition rne :: "rat \<Rightarrow> int" where
  "rne y = (let f = \<lfloor>y\<rfloor>; r = y - of_int f
            in if r < 1 / 2 then f else if 1 / 2 < r then f + 1
               else if even f then f else f + 1)"

definition fl :: "rat \<Rightarrow> rat" where
  "fl x = (if x = 0 then 0
           else let u = 2 powi (expo x - 52) in of_int (rne (x / u)) * u)"

definition inf_of_sign :: "bool \<Rightarrow> num" where
  "inf_of_sign positive = (if positive then PosInf else NegInf)"

text \<open>The operator \<^verbatim>\<open>/\<close>: a zero divisor gives \<^verbatim>\<open>NaN\<close> or an infinity, never an exception.\<close>

fun js_div :: "num \<Rightarrow> num \<Rightarrow> num" where
  "js_div NaN _ = NaN"
| "js_div _ NaN = NaN"
| "js_div (Finite a) (Finite b) =
     (if b = 0 then (if a = 0 then NaN else inf_of_sign (0 < a)) else Finite (fl (a / b)))"
| "js_div (Finite a) _ = Finite 0"
| "js_div PosInf (Finite b) = inf_of_sign (0 \<le> b)"
| "js_div NegInf (Finite b) = inf_of_sign (b < 0)"
| "js_div _ _ = NaN"

text \<open>The operator \<^verbatim>\<open>*\<close>.\<close>

fun js_mul :: "num \<Rightarrow> num \<Rightarrow> num" where
  "js_mul NaN _ = NaN"
| "js_mul _ NaN = NaN"
| "js_mul (Finite a) (Finite b) = Finite (fl (a * b))"
| "js_mul (Finite a) PosInf = (if a = 0 then NaN else inf_of_sign (0 < a))"
| "js_mul (Finite a) NegInf = (if a = 0 then NaN else inf_of_sign (a < 0))"
| "js_mul PosInf (Finite b) = (if b = 0 then NaN else inf_of_sign (0 < b))"
| "js_mul NegInf (Finite b) = (if b = 0 then NaN else inf_of_sign (b < 0))"
| "js_mul PosInf PosInf = PosInf"
| "js_mul NegInf NegInf = PosInf"
| "js_mul _ _ = NegInf"

text \<open>
  \<^verbatim>\<open>Math.round\<close>: the integer nearest to its argument, a tie going towards \<open>+\<infinity>\<close>; the
  result is computed exactly. \<^verbatim>\<open>NaN\<close> and the infinities are returned as they are.
\<close>

fun Math_round :: "num \<Rightarrow> num" where
  "Math_round (Finite y) = Finite (of_int \<lfloor>y + 1 / 2\<rfloor>)"
| "Math_round v = v"

text \<open>The comparison \<^verbatim>\<open>>=\<close>: false as soon as one side is \<^verbatim>\<open>NaN\<close>.\<close>

fun js_ge :: "num \<Rightarrow> num \<Rightarrow> bool" where
  "js_ge NaN _ = False"
| "js_ge _ NaN = False"
| "js_ge PosInf _ = True"
| "js_ge _ NegInf = True"
| "js_ge (Finite x) (Finite y) = (y \<le> x)"
| "js_ge _ _ = False"

text \<open>A stored counter read as a number.\<close>

definition num_of_int :: "int \<Rightarrow> num" where
  "num_of_int n = Finite (of_int n)"

fun isFinite :: "num \<Rightarrow> bool" where
  "isFinite (Finite _) = True"
| "isFinite _ = False"

subsection \<open>Strings\<close>

text \<open>
  Strings are byte lists holding the UTF-8 encoding of the source's text. Template
  literals are concatenations, and \<^verbatim>\<open>s.includes(p)\<close> asks whether \<open>p\<close> occurs in \<open>s\<close> as a
  contiguous block. An integer inside a template literal is printed as its decimal
  numeral; JavaScript does so for magnitudes below \<open>10 ^ 21\<close>, which covers every counter
  that a double holds exactly.
\<close>

fun decimal :: "nat \<Rightarrow> string" where
  "decimal n = (if n < 10 then [char_of (48 + n)]
                else decimal (n div 10) @ [char_of (48 + n mod 10)])"

declare decimal.simps [simp del]

definition String_int :: "int \<Rightarrow> string" where
  "String_int n = (if n < 0 then CHR ''-'' # decimal (nat (- n)) else decimal (nat n))"

fun includes_str :: "'a list \<Rightarrow> 'a list \<Rightarrow> bool" where
  "includes_str [] p = (p = [])"
| "includes_str (x # xs) p = (prefix p (x # xs) \<or> includes_str xs p)"

text \<open>
  The Japanese literals of the page, in the order they occur: the three pass-probability
  labels (high, middle, low); the streak messages (``let us start studying!'', ``let us
  start today!'', and the three suffixes that follow the streak number: ``days in a
  row!'', the same followed by ``wonderful!'', the same followed by ``amazing!''); the
  titles and descriptions of the four quick actions (the third description is the suffix
  that follows the count of incorrect questions); and the message handed to the error
  handler when loading fails.
\<close>

definition str_high :: string where
  "str_high = [CHR 0xE9, CHR 0xAB, CHR 0x98]"

definition str_mid :: string where
  "str_mid = [CHR 0xE4, CHR 0xB8, CHR 0xAD]"

definition str_low :: string where
  "str_low = [CHR 0xE4, CHR 0xBD, CHR 0x8E]"

definition msg_start :: string where
  "msg_start = [CHR 0xE5, CHR 0xAD, CHR 0xA6, CHR 0xE7, CHR 0xBF, CHR 0x92, CHR 0xE3,
     CHR 0x82, CHR 0x92, CHR 0xE5, CHR 0xA7, CHR 0x8B, CHR 0xE3, CHR 0x82, CHR 0x81,
     CHR 0xE3, CHR 0x81, CHR 0xBE, CHR 0xE3, CHR 0x81, CHR 0x97, CHR 0xE3, CHR 0x82,
     CHR 0x87, CHR 0xE3, CHR 0x81, CHR 0x86, CHR 0xEF, CHR 0xBC, CHR 0x81]"

definition msg_today :: string where
  "msg_today = [CHR 0xE4, CHR 0xBB, CHR 0x8A, CHR 0xE6, CHR 0x97, CHR 0xA5, CHR 0xE3,
     CHR 0x81, CHR 0x8B, CHR 0xE3, CHR 0x82, CHR 0x89, CHR 0xE5, CHR 0xA7, CHR 0x8B,
     CHR 0xE3, CHR 0x82, CHR 0x81, CHR 0xE3, CHR 0x81, CHR 0xBE, CHR 0xE3, CHR 0x81,
     CHR 0x97, CHR 0xE3, CHR 0x82, CHR 0x87, CHR 0xE3, CHR 0x81, CHR 0x86, CHR 0xEF,
     CHR 0xBC, CHR 0x81]"

definition msg_streak :: string where
  "msg_streak = [CHR 0xE6, CHR 0x97, CHR 0xA5, CHR 0xE9, CHR 0x80, CHR 0xA3, CHR 0xE7,
     CHR 0xB6, CHR 0x9A, CHR 0xEF, CHR 0xBC, CHR 0x81]"

definition msg_streak_great :: string where
  "msg_streak_great = [CHR 0xE6, CHR 0x97, CHR 0xA5, CHR 0xE9, CHR 0x80, CHR 0xA3,
     CHR 0xE7, CHR 0xB6, CHR 0x9A, CHR 0xEF, CHR 0xBC, CHR 0x81, CHR 0xE7, CHR 0xB4,
     CHR 0xA0, CHR 0xE6, CHR 0x99, CHR 0xB4, CHR 0xE3, CHR 0x82, CHR 0x89, CHR 0xE3,
     CHR 0x81, CHR 0x97, CHR 0xE3, CHR 0x81, CHR 0x84, CHR 0xEF, CHR 0xBC, CHR 0x81]"

definition msg_streak_amazing :: string where
  "msg_streak_amazing = [CHR 0xE6, CHR 0x97, CHR 0xA5, CHR 0xE9, CHR 0x80, CHR 0xA3,
     CHR 0xE7, CHR 0xB6, CHR 0x9A, CHR 0xEF, CHR 0xBC, CHR 0x81, CHR 0xE3, CHR 0x81,
     CHR 0x99, CHR 0xE3, CHR 0x81, CHR 0x94, CHR 0xE3, CHR 0x81, CHR 0x84, CHR 0xEF,
     CHR 0xBC, CHR 0x81]"

definition title_category :: string where
  "title_category = [CHR 0xE3, CHR 0x82, CHR 0xAB, CHR 0xE3, CHR 0x83, CHR 0x86,
     CHR 0xE3, CHR 0x82, CHR 0xB4, CHR 0xE3, CHR 0x83, CHR 0xAA, CHR 0xE5, CHR 0x88,
     CHR 0xA5, CHR 0xE5, CHR 0xAD, CHR 0xA6, CHR 0xE7, CHR 0xBF, CHR 0x92]"

definition title_mock :: string where
  "title_mock = ''Mock'' @ [CHR 0xE8, CHR 0xA9, CHR 0xA6, CHR 0xE9, CHR 0xA8, CHR 0x93]"

definition title_review :: string where
  "title_review = [CHR 0xE9, CHR 0x96, CHR 0x93, CHR 0xE9, CHR 0x81, CHR 0x95, CHR 0xE3,
     CHR 0x81, CHR 0x88, CHR 0xE3, CHR 0x81, CHR 0x9F, CHR 0xE5, CHR 0x95, CHR 0x8F,
     CHR 0xE9, CHR 0xA1, CHR 0x8C, CHR 0xE3, CHR 0x82, CHR 0x92, CHR 0xE5, CHR 0xBE,
     CHR 0xA9, CHR 0xE7, CHR 0xBF, CHR 0x92]"

definition title_list :: string where
  "title_list = [CHR 0xE5, CHR 0x95, CHR 0x8F, CHR 0xE9, CHR 0xA1, CHR 0x8C, CHR 0xE3,
     CHR 0x83, CHR 0xAA, CHR 0xE3, CHR 0x82, CHR 0xB9, CHR 0xE3, CHR 0x83, CHR 0x88]"

definition desc_category :: string where
  "desc_category = [CHR 0xE5, CHR 0x90, CHR 0x84, CHR 0xE3, CHR 0x82, CHR 0xAB, CHR 0xE3,
     CHR 0x83, CHR 0x86, CHR 0xE3, CHR 0x82, CHR 0xB4, CHR 0xE3, CHR 0x83, CHR 0xAA,
     CHR 0xE3, CHR 0x81, CHR 0x8B, CHR 0xE3, CHR 0x82, CHR 0x89] @ ''10'' @ [CHR 0xE5,
     CHR 0x95, CHR 0x8F, CHR 0xE5, CHR 0x87, CHR 0xBA, CHR 0xE9, CHR 0xA1, CHR 0x8C]"

definition desc_mock :: string where
  "desc_mock = [CHR 0xE6, CHR 0x9C, CHR 0xAC, CHR 0xE7, CHR 0x95, CHR 0xAA, CHR 0xE5,
     CHR 0xBD, CHR 0xA2, CHR 0xE5, CHR 0xBC, CHR 0x8F, CHR 0xE3, CHR 0x81, CHR 0xA7,
     CHR 0xE5, CHR 0xAE, CHR 0x9F, CHR 0xE5, CHR 0x8A, CHR 0x9B, CHR 0xE3, CHR 0x83,
     CHR 0x81, CHR 0xE3, CHR 0x82, CHR 0xA7, CHR 0xE3, CHR 0x83, CHR 0x83, CHR 0xE3,
     CHR 0x82, CHR 0xAF]"

definition desc_review_suffix :: string where
  "desc_review_suffix = [CHR 0xE5, CHR 0x95, CHR 0x8F, CHR 0xE3, CHR 0x81, CHR 0xAE,
     CHR 0xE5, CHR 0xBE, CHR 0xA9, CHR 0xE7, CHR 0xBF, CHR 0x92, CHR 0xE3, CHR 0x81,
     CHR 0x8C, CHR 0xE5, CHR 0x8F, CHR 0xAF, CHR 0xE8, CHR 0x83, CHR 0xBD]"

definition desc_list :: string where
  "desc_list = [CHR 0xE3, CHR 0x82, CHR 0xAB, CHR 0xE3, CHR 0x83, CHR 0x86, CHR 0xE3,
     CHR 0x82, CHR 0xB4, CHR 0xE3, CHR 0x83, CHR 0xAA, CHR 0xE5, CHR 0x88, CHR 0xA5,
     CHR 0xE3, CHR 0x81, CHR 0xAE, CHR 0xE5, CHR 0x95, CHR 0x8F, CHR 0xE9, CHR 0xA1,
     CHR 0x8C, CHR 0xE4, CHR 0xB8, CHR 0x80, CHR 0xE8, CHR 0xA6, CHR 0xA7]"

definition msg_load_failed :: string where
  "msg_load_failed = [CHR 0xE5, CHR 0xAD, CHR 0xA6, CHR 0xE7, CHR 0xBF, CHR 0x92,
     CHR 0xE9, CHR 0x80, CHR 0xB2, CHR 0xE6, CHR 0x8D, CHR 0x97, CHR 0xE3, CHR 0x81,
     CHR 0xAE, CHR 0xE8, CHR 0xAA, CHR 0xAD, CHR 0xE3, CHR 0x81, CHR 0xBF, CHR 0xE8,
     CHR 0xBE, CHR 0xBC, CHR 0xE3, CHR 0x81, CHR 0xBF, CHR 0xE3, CHR 0x81, CHR 0xAB,
     CHR 0xE5, CHR 0xA4, CHR 0xB1, CHR 0xE6, CHR 0x95, CHR 0x97, CHR 0xE3, CHR 0x81,
     CHR 0x97, CHR 0xE3, CHR 0x81, CHR 0xBE, CHR 0xE3, CHR 0x81, CHR 0x97, CHR 0xE3,
     CHR 0x81, CHR 0x9F]"

subsection \<open>Data\<close>

text \<open>
  Values the source types as \<^verbatim>\<open>any\<close>, and the element types that are declared outside
  this file, are JSON values.
\<close>

datatype json =
    JNull
  | JBool bool
  | JNum rat
  | JStr string
  | JArr "json list"
  | JObj "(string \<times> json) list"

text \<open>An entry of \<^verbatim>\<open>categories\<close> (imported from \<^verbatim>\<open>utils/category-utils\<close>).\<close>

record category =
  name :: string
  nameJa :: "string option"
  totalQuestions :: int

text \<open>A value of \<^verbatim>\<open>progress.categoryProgress\<close>.\<close>

record categoryData =
  cp_totalQuestions :: int
  answeredQuestions :: int
  cp_correctAnswers :: int

record preferences =
  showJapaneseInStudy :: bool
  showJapaneseInMock :: bool
  autoReviewIncorrect :: bool
  notificationEnabled :: bool

text \<open>
  \<^verbatim>\<open>UserProgress\<close>. The two question lists are read with \<^verbatim>\<open>?.\<close>, so they may be missing.
\<close>

record userProgress =
  totalQuestionsAnswered :: int
  correctAnswers :: int
  categoryProgress :: "string \<rightharpoonup> categoryData"
  studySessions :: "json list"
  incorrectQuestions :: "json list option"
  overcomeQuestions :: "json list option"
  currentStreak :: int
  lastStudyDate :: string
  preferences :: preferences

record user =
  nickname :: string

text \<open>A thrown value: the \<^verbatim>\<open>TypeError\<close> of reading a property of \<^verbatim>\<open>undefined\<close>, or
  whatever a function outside this file throws.\<close>

datatype thrown = TypeError | Thrown string

text \<open>
  The state the page works on: the React state of \<^verbatim>\<open>DashboardContent\<close>, the calls made
  to \<^verbatim>\<open>handleError\<close> and to \<^verbatim>\<open>console.error\<close> so far, and the browser's local storage.
\<close>

record 'st dashboard =
  progress :: "userProgress option"
  loading :: bool
  show3D :: bool
  mockExamHistory :: "json list"
  handledErrors :: "(thrown \<times> string) list"
  consoleErrors :: "(string \<times> thrown) list"
  localStorage :: 'st

text \<open>
  What the page imports from other modules: \<^verbatim>\<open>safeLocalStorage.getItem\<close> at the two
  types it is used at, \<^verbatim>\<open>safeLocalStorage.setItem\<close>, \<^verbatim>\<open>validateAndFixProgress\<close> and the
  list \<^verbatim>\<open>categories\<close>. Each function either throws or returns; \<^verbatim>\<open>getItem\<close> returns
  \<open>None\<close> for \<^verbatim>\<open>null\<close>.
\<close>

record 'st env =
  getItem_progress :: "'st \<Rightarrow> string \<Rightarrow> thrown + userProgress option"
  getItem_history :: "'st \<Rightarrow> string \<Rightarrow> thrown + json list option"
  setItem :: "'st \<Rightarrow> string \<Rightarrow> userProgress \<Rightarrow> thrown + 'st"
  validateAndFixProgress :: "userProgress \<Rightarrow> thrown + userProgress"
  categories :: "category list"

subsection \<open>Loading the progress\<close>

text \<open>\<^verbatim>\<open>user?.nickname\<close> inside a template literal: a missing user prints as \<^verbatim>\<open>undefined\<close>.\<close>

definition nickname_text :: "user option \<Rightarrow> string" where
  "nickname_text u = (case u of None \<Rightarrow> ''undefined'' | Some v \<Rightarrow> nickname v)"

definition userProgressKey :: "user option \<Rightarrow> string" where
  "userProgressKey u = ''userProgress_'' @ nickname_text u"

definition initialCategoryProgress :: "category list \<Rightarrow> (string \<rightharpoonup> categoryData)" where
  "initialCategoryProgress cs =
     fold (\<lambda>c m. m(name c \<mapsto>
             \<lparr>cp_totalQuestions = totalQuestions c, answeredQuestions = 0, cp_correctAnswers = 0\<rparr>))
       cs Map.empty"

definition initialProgress :: "category list \<Rightarrow> userProgress" where
  "initialProgress cs =
     \<lparr>totalQuestionsAnswered = 0,
      correctAnswers = 0,
      categoryProgress = initialCategoryProgress cs,
      studySessions = [],
      incorrectQuestions = Some [],
      overcomeQuestions = Some [],
      currentStreak = 0,
      lastStudyDate = '''',
      preferences = \<lparr>showJapaneseInStudy = True, showJapaneseInMock = False,
                      autoReviewIncorrect = True, notificationEnabled = False\<rparr>\<rparr>"

definition handleError :: "thrown \<Rightarrow> string \<Rightarrow> 'st dashboard \<Rightarrow> 'st dashboard" where
  "handleError e m s = s\<lparr>handledErrors := handledErrors s @ [(e, m)]\<rparr>"

text \<open>
  The \<^verbatim>\<open>try\<close> block of \<^verbatim>\<open>loadUserProgress\<close>: the state it leaves, and the value thrown
  if it was left by an exception.
\<close>

definition loadUserProgress_try ::
  "'st env \<Rightarrow> user option \<Rightarrow> 'st dashboard \<Rightarrow> 'st dashboard \<times> thrown option" where
  "loadUserProgress_try E u s0 =
     (let s1 = s0\<lparr>loading := True\<rparr>;
          key = userProgressKey u
      in case getItem_progress E (localStorage s1) key of
           Inl e \<Rightarrow> (s1, Some e)
         | Inr (Some parsedProgress) \<Rightarrow>
             (case validateAndFixProgress E parsedProgress of
                Inl e \<Rightarrow> (s1, Some e)
              | Inr validatedProgress \<Rightarrow> (s1\<lparr>progress := Some validatedProgress\<rparr>, None))
         | Inr None \<Rightarrow>
             (let initial = initialProgress (categories E);
                  s2 = s1\<lparr>progress := Some initial\<rparr>
              in case setItem E (localStorage s2) key initial of
                   Inl e \<Rightarrow> (s2, Some e)
                 | Inr st \<Rightarrow> (s2\<lparr>localStorage := st\<rparr>, None)))"

text \<open>The \<^verbatim>\<open>catch\<close> block.\<close>

definition loadUserProgress_catch :: "thrown \<Rightarrow> 'st dashboard \<Rightarrow> 'st dashboard" where
  "loadUserProgress_catch e s = handleError e msg_load_failed s"

definition loadUserProgress :: "'st env \<Rightarrow> user option \<Rightarrow> 'st dashboard \<Rightarrow> 'st dashboard" where
  "loadUserProgress E u s0 =
     (let (s, r) = loadUserProgress_try E u s0;
          s' = (case r of None \<Rightarrow> s | Some e \<Rightarrow> loadUserProgress_catch e s)
      in s'\<lparr>loading := False\<rparr>)"

subsection \<open>Derived statistics\<close>

definition calculateAccuracy :: "userProgress option \<Rightarrow> num" where
  "calculateAccuracy pr =
     (case pr of
        None \<Rightarrow> Finite 0
      | Some p \<Rightarrow>
          if totalQuestionsAnswered p = 0 then Finite 0
          else Math_round
                 (js_mul (js_div (num_of_int (correctAnswers p))
                                 (num_of_int (totalQuestionsAnswered p)))
                         (Finite 100)))"

definition calculatePassProbability :: "userProgress option \<Rightarrow> string" where
  "calculatePassProbability pr =
     (let accuracy = calculateAccuracy pr
      in if js_ge accuracy (Finite 70) then str_high
         else if js_ge accuracy (Finite 60) then str_mid
         else str_low)"

record streakStatus =
  message :: string
  status_color :: string

definition getStreakStatus :: "userProgress option \<Rightarrow> streakStatus" where
  "getStreakStatus pr =
     (case pr of
        None \<Rightarrow> \<lparr>message = msg_start, status_color = ''text-gray-500''\<rparr>
      | Some p \<Rightarrow>
          if currentStreak p = 0
          then \<lparr>message = msg_today, status_color = ''text-gray-500''\<rparr>
          else if currentStreak p < 3
          then \<lparr>message = String_int (currentStreak p) @ msg_streak,
                status_color = ''text-orange-500''\<rparr>
          else if currentStreak p < 7
          then \<lparr>message = String_int (currentStreak p) @ msg_streak_great,
                status_color = ''text-blue-500''\<rparr>
          else \<lparr>message = String_int (currentStreak p) @ msg_streak_amazing,
                status_color = ''text-green-500''\<rparr>)"

text \<open>\<^verbatim>\<open>progress?.incorrectQuestions?.length || 0\<close>.\<close>

definition getIncorrectQuestionsCount :: "userProgress option \<Rightarrow> int" where
  "getIncorrectQuestionsCount pr =
     (case pr of
        None \<Rightarrow> 0
      | Some p \<Rightarrow> (case incorrectQuestions p of None \<Rightarrow> 0 | Some qs \<Rightarrow> int (length qs)))"

definition getOvercomeQuestionsCount :: "userProgress option \<Rightarrow> int" where
  "getOvercomeQuestionsCount pr =
     (case pr of
        None \<Rightarrow> 0
      | Some p \<Rightarrow> (case overcomeQuestions p of None \<Rightarrow> 0 | Some qs \<Rightarrow> int (length qs)))"

subsection \<open>The mock exam history\<close>

text \<open>\<^verbatim>\<open>xs.slice(start)\<close>: a negative start counts from the end, and both are clamped.\<close>

definition slice :: "int \<Rightarrow> 'a list \<Rightarrow> 'a list" where
  "slice start xs =
     (let len = int (length xs);
          k = (if start < 0 then max (len + start) 0 else min start len)
      in drop (nat k) xs)"

definition mockExamHistoryKey :: "user option \<Rightarrow> string" where
  "mockExamHistoryKey u = ''mockExamHistory_'' @ nickname_text u"

definition loadMockExamHistory :: "'st env \<Rightarrow> user option \<Rightarrow> 'st dashboard \<Rightarrow> 'st dashboard" where
  "loadMockExamHistory E u s =
     (case getItem_history E (localStorage s) (mockExamHistoryKey u) of
        Inl e \<Rightarrow> s\<lparr>consoleErrors := consoleErrors s @ [(''Failed to load mock exam history:'', e)]\<rparr>
      | Inr r \<Rightarrow>
          (let history = (case r of None \<Rightarrow> [] | Some h \<Rightarrow> h)
           in s\<lparr>mockExamHistory := rev (slice (- 5) history)\<rparr>))"

subsection \<open>Quick actions\<close>

text \<open>Only the third action has a \<^verbatim>\<open>disabled\<close> property; the icon is named by its component.\<close>

record quickAction =
  title :: string
  description :: string
  icon :: string
  href :: string
  color :: string
  disabled :: "bool option"

definition quickActions :: "userProgress option \<Rightarrow> quickAction list" where
  "quickActions pr =
     [\<lparr>title = title_category, description = desc_category, icon = ''Target'',
       href = ''/study?mode=category'', color = ''bg-indigo-500'', disabled = None\<rparr>,
      \<lparr>title = title_mock, description = desc_mock, icon = ''Clock'',
       href = ''/study?mode=mock'', color = ''bg-emerald-500'', disabled = None\<rparr>,
      \<lparr>title = title_review,
       description = String_int (getIncorrectQuestionsCount pr) @ desc_review_suffix,
       icon = ''AlertCircle'', href = ''/study/session?mode=review'',
       color = ''bg-orange-500'', disabled = Some (getIncorrectQuestionsCount pr = 0)\<rparr>,
      \<lparr>title = title_list, description = desc_list, icon = ''List'',
       href = ''/questions'', color = ''bg-purple-500'', disabled = None\<rparr>]"

text \<open>Truthiness of an optional boolean: \<^verbatim>\<open>undefined\<close> is falsy.\<close>

definition truthy :: "bool option \<Rightarrow> bool" where
  "truthy b = (case b of None \<Rightarrow> False | Some v \<Rightarrow> v)"

text \<open>The \<^verbatim>\<open>Link\<close> rendered for an action: its target, the conditional part of its class,
  its texts, and whether a click is cancelled.\<close>

record quickLink =
  link_href :: string
  link_class :: string
  link_title :: string
  link_description :: string
  link_preventDefault :: bool

definition renderQuickAction :: "quickAction \<Rightarrow> quickLink" where
  "renderQuickAction action =
     \<lparr>link_href = (if truthy (disabled action) then ''#'' else href action),
      link_class = (if truthy (disabled action) then ''opacity-50 cursor-not-allowed'' else ''''),
      link_title = title action,
      link_description = description action,
      link_preventDefault = truthy (disabled action)\<rparr>"

definition renderQuickActions :: "userProgress option \<Rightarrow> quickLink list" where
  "renderQuickActions pr = map renderQuickAction (quickActions pr)"

subsection \<open>Category progress\<close>

definition studyCategories :: "category list \<Rightarrow> category list" where
  "studyCategories cs = filter (\<lambda>c. \<not> includes_str (name c) ''Mock'') cs"

definition mockCategories :: "category list \<Rightarrow> category list" where
  "mockCategories cs = filter (\<lambda>c. includes_str (name c) ''Mock'') cs"

text \<open>The two numbers computed for a category, by the same code in both lists.\<close>

definition categoryPercentage :: "categoryData \<Rightarrow> num" where
  "categoryPercentage d =
     (if cp_totalQuestions d > 0
      then Math_round (js_mul (js_div (num_of_int (answeredQuestions d))
                                      (num_of_int (cp_totalQuestions d)))
                              (Finite 100))
      else Finite 0)"

definition categoryAccuracy :: "categoryData \<Rightarrow> num" where
  "categoryAccuracy d =
     (if answeredQuestions d > 0
      then Math_round (js_mul (js_div (num_of_int (cp_correctAnswers d))
                                      (num_of_int (answeredQuestions d)))
                              (Finite 100))
      else Finite 0)"

text \<open>What one entry of the study list shows.\<close>

record studyRow =
  row_name :: string
  row_nameJa :: "string option"
  row_answered :: int
  row_total :: int
  row_accuracy :: num
  row_percentage :: num

text \<open>What one card of the mock list shows; the class colours the accuracy.\<close>

record mockCard =
  card_name :: string
  card_percentage :: num
  card_accuracy :: num
  card_accuracy_class :: string

text \<open>
  \<^verbatim>\<open>progress.categoryProgress[category.name]\<close> is \<^verbatim>\<open>undefined\<close> for a name that has no
  entry, and reading \<^verbatim>\<open>data.totalQuestions\<close> then throws.
\<close>

definition studyCategoryRow :: "userProgress \<Rightarrow> category \<Rightarrow> thrown + studyRow" where
  "studyCategoryRow p c =
     (case categoryProgress p (name c) of
        None \<Rightarrow> Inl TypeError
      | Some d \<Rightarrow>
          Inr \<lparr>row_name = name c, row_nameJa = nameJa c,
               row_answered = answeredQuestions d, row_total = cp_totalQuestions d,
               row_accuracy = categoryAccuracy d, row_percentage = categoryPercentage d\<rparr>)"

definition mockCategoryCard :: "userProgress \<Rightarrow> category \<Rightarrow> thrown + mockCard" where
  "mockCategoryCard p c =
     (case categoryProgress p (name c) of
        None \<Rightarrow> Inl TypeError
      | Some d \<Rightarrow>
          Inr \<lparr>card_name = name c,
               card_percentage = categoryPercentage d,
               card_accuracy = categoryAccuracy d,
               card_accuracy_class =
                 (if js_ge (categoryAccuracy d) (Finite 70) then ''text-green-500''
                  else ''text-orange-500'')\<rparr>)"

text \<open>\<^verbatim>\<open>xs.map(f)\<close> where \<open>f\<close> may throw: the first exception ends the rendering.\<close>

fun map_throwing :: "('a \<Rightarrow> thrown + 'b) \<Rightarrow> 'a list \<Rightarrow> thrown + 'b list" where
  "map_throwing f [] = Inr []"
| "map_throwing f (x # xs) =
     (case f x of
        Inl e \<Rightarrow> Inl e
      | Inr y \<Rightarrow> (case map_throwing f xs of Inl e \<Rightarrow> Inl e | Inr ys \<Rightarrow> Inr (y # ys)))"

definition studyCategoryRows :: "category list \<Rightarrow> userProgress \<Rightarrow> thrown + studyRow list" where
  "studyCategoryRows cs p = map_throwing (studyCategoryRow p) (studyCategories cs)"

definition mockCategoryCards :: "category list \<Rightarrow> userProgress \<Rightarrow> thrown + mockCard list" where
  "mockCategoryCards cs p = map_throwing (mockCategoryCard p) (mockCategories cs)"


subsection \<open>Auxiliary definitions for the statements\<close>

text \<open>
  The integer that \<^verbatim>\<open>Math.round((a / b) * 100)\<close> evaluates to when \<open>b \<noteq> 0\<close>: both the
  quotient and the product are rounded to binary64 before \<^verbatim>\<open>Math.round\<close> is applied.
\<close>

definition rounded_percent :: "int \<Rightarrow> int \<Rightarrow> int" where
  "rounded_percent a b = \<lfloor>fl (fl (of_int a / of_int b) * 100) + 1 / 2\<rfloor>"

text \<open>
  The accuracy as the specification words it: 0 without progress or without answers,
  otherwise \<^verbatim>\<open>Math.round\<close> of the exact rational \<open>(correctAnswers / totalQuestionsAnswered) * 100\<close>.
\<close>

definition exact_percent :: "userProgress \<Rightarrow> rat" where
  "exact_percent p = of_int (correctAnswers p) / of_int (totalQuestionsAnswered p) * 100"

definition calculateAccuracy_spec :: "userProgress option \<Rightarrow> int" where
  "calculateAccuracy_spec pr =
     (case pr of
        None \<Rightarrow> 0
      | Some p \<Rightarrow> if totalQuestionsAnswered p = 0 then 0 else \<lfloor>exact_percent p + 1 / 2\<rfloor>)"

text \<open>
  Modelled from the spec: \<^verbatim>\<open>safeLocalStorage\<close> of \<^verbatim>\<open>utils/storage-utils\<close> and
  \<^verbatim>\<open>validateAndFixProgress\<close> of \<^verbatim>\<open>utils/progress-validator\<close> are not part of the page.
  The specification says of the first that it reads and writes a JSON blob in browser
  local storage. \<open>memoryEnv\<close> is the environment in which storage is a finite map from
  keys to values, one map for each of the two types read, no operation throws, and
  validation returns its argument. \<open>brokenEnv\<close> is the one in which every read throws.
  The theorems below hold for every environment; these two serve as instances.
\<close>

type_synonym memory = "(string \<rightharpoonup> userProgress) \<times> (string \<rightharpoonup> json list)"

definition memoryEnv :: "category list \<Rightarrow> memory env" where
  "memoryEnv cs =
     \<lparr>getItem_progress = (\<lambda>st k. Inr (fst st k)),
      getItem_history = (\<lambda>st k. Inr (snd st k)),
      setItem = (\<lambda>st k v. Inr ((fst st)(k \<mapsto> v), snd st)),
      validateAndFixProgress = Inr,
      categories = cs\<rparr>"

definition brokenEnv :: "category list \<Rightarrow> memory env" where
  "brokenEnv cs =
     \<lparr>getItem_progress = (\<lambda>st k. Inl (Thrown ''SecurityError'')),
      getItem_history = (\<lambda>st k. Inl (Thrown ''SecurityError'')),
      setItem = (\<lambda>st k v. Inl (Thrown ''SecurityError'')),
      validateAndFixProgress = Inr,
      categories = cs\<rparr>"

text \<open>The state of a freshly mounted page, over a given storage.\<close>

definition mounted :: "'st \<Rightarrow> 'st dashboard" where
  "mounted st =
     \<lparr>progress = None, loading = True, show3D = False, mockExamHistory = [],
      handledErrors = [], consoleErrors = [], localStorage = st\<rparr>"

text \<open>Sample data: two categories, and a progress record with given counters.\<close>

definition sampleCategories :: "category list" where
  "sampleCategories =
     [\<lparr>name = ''Regulations'', nameJa = None, totalQuestions = 40\<rparr>,
      \<lparr>name = ''Mock 1'', nameJa = None, totalQuestions = 75\<rparr>]"

definition sampleProgress :: "int \<Rightarrow> int \<Rightarrow> userProgress" where
  "sampleProgress c t =
     (initialProgress sampleCategories)\<lparr>totalQuestionsAnswered := t, correctAnswers := c\<rparr>"

text \<open>A signed-in user, a storage that holds seven mock exam results and no progress, and
  a storage that holds a progress of 23 correct answers out of 40.\<close>

definition sampleHistory :: "json list" where
  "sampleHistory = map (\<lambda>n. JNum (of_nat n)) [1 ..< 8]"

definition sampleUser :: "user option" where
  "sampleUser = Some \<lparr>nickname = ''taro''\<rparr>"

definition sampleMemory :: memory where
  "sampleMemory = (Map.empty, [''mockExamHistory_taro'' \<mapsto> sampleHistory])"

definition storedMemory :: memory where
  "storedMemory = ([''userProgress_taro'' \<mapsto> sampleProgress 23 40], Map.empty)"

text \<open>The entry that \<^verbatim>\<open>loadUserProgress\<close> creates for a category.\<close>

definition initialEntry :: "category \<Rightarrow> categoryData" where
  "initialEntry c =
     \<lparr>cp_totalQuestions = totalQuestions c, answeredQuestions = 0, cp_correctAnswers = 0\<rparr>"


subsection \<open>Rounding to binary64\<close>

lemma bitlen_rat_bounds:
  fixes n :: int
  assumes "0 < n"
  shows "(2::rat) powi (bitlen n - 1) \<le> of_int n" and "of_int n < (2::rat) powi bitlen n"
proof -
  have b: "1 \<le> bitlen n"
    using assms bitlen_eq_zero_iff [of n] bitlen_nonneg [of n] by linarith
  have lo: "(2::int) ^ nat (bitlen n - 1) \<le> n" and hi: "n < 2 ^ nat (bitlen n)"
    using bitlen_bounds [OF assms] by simp_all
  have "(2::rat) powi (bitlen n - 1) = of_int (2 ^ nat (bitlen n - 1))"
    using b by (simp add: power_int_def)
  also have "\<dots> \<le> of_int n"
    using lo by (simp only: of_int_le_iff)
  finally show "(2::rat) powi (bitlen n - 1) \<le> of_int n" .
  have "(of_int n :: rat) < of_int (2 ^ nat (bitlen n))"
    using hi by (simp only: of_int_less_iff)
  also have "\<dots> = (2::rat) powi bitlen n"
    using b by (simp add: power_int_def)
  finally show "of_int n < (2::rat) powi bitlen n" .
qed

lemma bitlen_quot_bounds:
  fixes p q :: int
  assumes "0 < p" "0 < q"
  shows "(2::rat) powi (bitlen p - bitlen q - 1) \<le> of_int p / of_int q"
    and "of_int p / of_int q < (2::rat) powi (bitlen p - bitlen q + 1)"
proof -
  note P = bitlen_rat_bounds [OF assms(1)] and Q = bitlen_rat_bounds [OF assms(2)]
  have qpos: "(0::rat) < of_int q" and ppos: "(0::rat) < of_int p" using assms by simp_all
  have e1: "(2::rat) powi (bitlen p - bitlen q - 1) = 2 powi (bitlen p - 1) / 2 powi bitlen q"
    by (simp add: power_int_diff)
  have e2: "(2::rat) powi (bitlen p - bitlen q + 1) = 2 powi bitlen p / 2 powi (bitlen q - 1)"
    by (simp add: power_int_diff power_int_add)
  have pw: "\<And>k. (0::rat) < 2 powi k" by simp
  show "(2::rat) powi (bitlen p - bitlen q - 1) \<le> of_int p / of_int q"
    unfolding e1
  proof (rule frac_le)
    show "(0::rat) \<le> of_int p" using assms by simp
    show "(2::rat) powi (bitlen p - 1) \<le> of_int p" by (rule P(1))
    show "(0::rat) < of_int q" by (rule qpos)
    show "(of_int q :: rat) \<le> 2 powi bitlen q" using Q(2) by (rule less_imp_le)
  qed
  show "of_int p / of_int q < (2::rat) powi (bitlen p - bitlen q + 1)"
    unfolding e2
  proof (rule frac_less)
    show "(0::rat) \<le> of_int p" using assms by simp
    show "(of_int p :: rat) < 2 powi bitlen p" by (rule P(2))
    show "(0::rat) < 2 powi (bitlen q - 1)" by (rule pw)
    show "(2::rat) powi (bitlen q - 1) \<le> of_int q" by (rule Q(1))
  qed
qed


lemma expo_bounds:
  assumes "x \<noteq> 0"
  shows "2 powi expo x \<le> \<bar>x\<bar>" and "\<bar>x\<bar> < 2 powi (expo x + 1)"
proof -
  obtain p q where pq: "quotient_of \<bar>x\<bar> = (p, q)" by (cases "quotient_of \<bar>x\<bar>")
  have q: "0 < q" using quotient_of_denom_pos [OF pq] .
  have x: "\<bar>x\<bar> = of_int p / of_int q" using quotient_of_div [OF pq] .
  have "0 < \<bar>x\<bar>" using assms by simp
  then have p: "0 < p" using q unfolding x by (simp add: zero_less_divide_iff)
  note B = bitlen_quot_bounds [OF p q, folded x]
  show "2 powi expo x \<le> \<bar>x\<bar>"
    using B(1) by (simp add: expo_def pq Let_def)
  show "\<bar>x\<bar> < 2 powi (expo x + 1)"
    using B(2) by (simp add: expo_def pq Let_def not_le)
qed

lemma rne_cases:
  obtains "rne y = \<lfloor>y\<rfloor>" "y - of_int \<lfloor>y\<rfloor> \<le> 1 / 2"
  | "rne y = \<lfloor>y\<rfloor> + 1" "1 / 2 \<le> y - of_int \<lfloor>y\<rfloor>"
  unfolding rne_def Let_def by (cases "y - of_int \<lfloor>y\<rfloor> < 1 / 2"; cases "1 / 2 < y - of_int \<lfloor>y\<rfloor>"; cases "even \<lfloor>y\<rfloor>") auto

lemma rne_err: "\<bar>of_int (rne y) - y\<bar> \<le> 1 / 2"
proof -
  have f: "of_int \<lfloor>y\<rfloor> \<le> y" "y < of_int \<lfloor>y\<rfloor> + 1" by linarith+
  show ?thesis
    by (rule rne_cases [of y]) (use f in \<open>simp_all add: abs_le_iff\<close>)
qed

lemma rne_le_int:
  assumes "y \<le> of_int n"
  shows "rne y \<le> n"
proof (rule rne_cases [of y])
  assume "rne y = \<lfloor>y\<rfloor>"
  then show ?thesis using assms by (simp add: floor_le_iff)
next
  assume r: "rne y = \<lfloor>y\<rfloor> + 1" and h: "1 / 2 \<le> y - of_int \<lfloor>y\<rfloor>"
  have "of_int \<lfloor>y\<rfloor> < (of_int n :: rat)" using h assms by linarith
  then have "\<lfloor>y\<rfloor> < n" by (simp only: of_int_less_iff)
  then show ?thesis using r by simp
qed

lemma rne_ge_int:
  assumes "of_int n \<le> y"
  shows "n \<le> rne y"
proof -
  have "n \<le> \<lfloor>y\<rfloor>" using assms by (simp add: le_floor_iff)
  show ?thesis by (rule rne_cases [of y]) (use \<open>n \<le> \<lfloor>y\<rfloor>\<close> in simp_all)
qed

lemma fl_err: "\<bar>fl x - x\<bar> \<le> \<bar>x\<bar> / 2 ^ 53"
proof (cases "x = 0")
  case True
  then show ?thesis by (simp add: fl_def)
next
  case False
  define u :: rat where "u = 2 powi (expo x - 52)"
  have u: "0 < u" by (simp add: u_def)
  have "(of_int (rne (x / u)) - x / u) * u = of_int (rne (x / u)) * u - x"
    using u by (simp add: left_diff_distrib)
  then have "\<bar>of_int (rne (x / u)) * u - x\<bar> = \<bar>of_int (rne (x / u)) - x / u\<bar> * \<bar>u\<bar>"
    by (simp only: abs_mult [symmetric])
  then have "\<bar>fl x - x\<bar> = \<bar>of_int (rne (x / u)) - x / u\<bar> * u"
    using u False by (simp add: fl_def u_def [symmetric] Let_def)
  also have "\<dots> \<le> (1 / 2) * u"
    using rne_err [of "x / u"] u by (intro mult_right_mono) simp_all
  also have "(1 / 2) * u = 2 powi expo x / 2 ^ 53"
    by (simp add: u_def power_int_diff)
  also have "\<dots> \<le> \<bar>x\<bar> / 2 ^ 53"
    using expo_bounds(1) [OF False] by (simp add: divide_right_mono)
  finally show ?thesis .
qed

lemma fl_nonneg: "0 \<le> x \<Longrightarrow> 0 \<le> fl x"
  using rne_ge_int [of 0 "x / 2 powi (expo x - 52)"] by (simp add: fl_def Let_def)

lemma fl_le_grid:
  assumes "0 < x" "x \<le> b" "b / 2 powi (expo x - 52) = of_int n"
  shows "fl x \<le> b"
proof -
  define u :: rat where "u = 2 powi (expo x - 52)"
  have u: "0 < u" by (simp add: u_def)
  have "x / u \<le> of_int n" using assms u by (simp add: u_def [symmetric] divide_right_mono flip: assms(3))
  then have "rne (x / u) \<le> n" by (rule rne_le_int)
  then have "(of_int (rne (x / u)) :: rat) \<le> of_int n" by (simp only: of_int_le_iff)
  then have "of_int (rne (x / u)) * u \<le> of_int n * u" using u by (simp add: mult_right_mono)
  also have "of_int n * u = b" using u assms(3) by (simp add: u_def [symmetric] field_simps)
  finally show ?thesis using assms(1) by (simp add: fl_def u_def [symmetric] Let_def)
qed

lemma percent_eval:
  "b \<noteq> 0 \<Longrightarrow>
   Math_round (js_mul (js_div (num_of_int a) (num_of_int b)) (Finite 100)) =
   Finite (of_int (rounded_percent a b))"
  by (simp add: num_of_int_def rounded_percent_def)

lemma fl_le_int:
  assumes "x \<le> of_int m" "m < 2 ^ k" "k \<le> 53" "0 \<le> m"
  shows "fl x \<le> of_int m"
proof (cases "0 < x")
  case True
  have "2 powi expo x \<le> \<bar>x\<bar>"
    using expo_bounds(1) [of x] True by simp
  also have "\<bar>x\<bar> \<le> of_int m" using True assms(1) by simp
  also have "(of_int m :: rat) < of_int (2 ^ k)" using assms(2) by (simp only: of_int_less_iff)
  also have "(of_int (2 ^ k) :: rat) = 2 powi int k" by simp
  finally have "expo x < int k"
    by (rule power_int_le_imp_less_exp [rotated]) simp_all
  then have e: "expo x \<le> 52" using assms(3) by simp
  have "(2::rat) powi (expo x - 52) = 1 / 2 powi (52 - expo x)"
    by (simp add: power_int_diff)
  also have "\<dots> = 1 / 2 ^ nat (52 - expo x)"
    using e by (simp add: power_int_def)
  finally have "of_int m / (2::rat) powi (expo x - 52) = of_int (m * 2 ^ nat (52 - expo x))"
    by simp
  from fl_le_grid [OF True assms(1) this] show ?thesis .
next
  case False
  then have "x / 2 powi (expo x - 52) \<le> of_int 0" by (simp add: divide_le_0_iff)
  then have "rne (x / 2 powi (expo x - 52)) \<le> 0" by (rule rne_le_int)
  then have "(of_int (rne (x / 2 powi (expo x - 52))) :: rat) * 2 powi (expo x - 52) \<le> 0"
    by (simp add: mult_le_0_iff)
  then have "fl x \<le> 0" by (simp add: fl_def Let_def)
  then show ?thesis using assms(4) by simp
qed

lemma rounded_percent_range:
  assumes "0 \<le> a" "a \<le> b" "0 < b"
  shows "0 \<le> rounded_percent a b" and "rounded_percent a b \<le> 100"
proof -
  define q where "q = fl (of_int a / of_int b)"
  have "(of_int a / of_int b :: rat) \<le> of_int 1" using assms by simp
  then have "q \<le> of_int 1" unfolding q_def by (rule fl_le_int [where k = 1]) simp_all
  moreover have q0: "0 \<le> q" unfolding q_def using assms by (intro fl_nonneg) simp
  ultimately have "q * 100 \<le> of_int 100" by simp
  then have "fl (q * 100) \<le> of_int 100" by (rule fl_le_int [where k = 7]) simp_all
  moreover have "0 \<le> fl (q * 100)" using q0 by (intro fl_nonneg) simp
  ultimately show "0 \<le> rounded_percent a b" and "rounded_percent a b \<le> 100"
    unfolding rounded_percent_def q_def [symmetric] by (simp_all add: floor_le_iff le_floor_iff)
qed


lemma double_rounding_error:
  fixes a b :: int
  assumes "0 < b" "\<bar>a\<bar> < 2 ^ 43"
  shows "\<bar>fl (fl (of_int a / of_int b) * 100) - 100 * of_int a / of_int b\<bar> < 1 / (2 * of_int b)"
proof -
  define x0 :: rat where "x0 = of_int a / of_int b"
  define q where "q = fl x0"
  define y where "y = fl (q * 100)"
  define eps :: rat where "eps = 1 / 2 ^ 53"
  have bpos: "(0::rat) < of_int b" using assms(1) by simp
  have e1: "\<bar>q - x0\<bar> \<le> \<bar>x0\<bar> * eps"
    using fl_err [of x0] by (simp add: q_def eps_def)
  have e2: "\<bar>y - q * 100\<bar> \<le> \<bar>q\<bar> * 100 * eps"
    using fl_err [of "q * 100"] by (simp add: y_def eps_def abs_mult)
  have eps: "0 < eps" "eps \<le> 1" by (simp_all add: eps_def)
  have "\<bar>q\<bar> \<le> \<bar>x0\<bar> + \<bar>q - x0\<bar>" by simp
  also have "\<dots> \<le> \<bar>x0\<bar> + \<bar>x0\<bar> * eps" using e1 by simp
  also have "\<dots> \<le> \<bar>x0\<bar> + \<bar>x0\<bar> * 1"
    using eps by (intro add_left_mono mult_left_mono) simp_all
  finally have q2: "\<bar>q\<bar> \<le> 2 * \<bar>x0\<bar>" by simp
  have "y - 100 * x0 = (y - q * 100) + 100 * (q - x0)" by simp
  then have "\<bar>y - 100 * x0\<bar> \<le> \<bar>y - q * 100\<bar> + \<bar>100 * (q - x0)\<bar>"
    by (simp only: abs_triangle_ineq)
  also have "\<bar>100 * (q - x0)\<bar> = 100 * \<bar>q - x0\<bar>" by (simp only: abs_mult abs_numeral)
  finally have "\<bar>y - 100 * x0\<bar> \<le> \<bar>y - q * 100\<bar> + 100 * \<bar>q - x0\<bar>" .
  also have "\<dots> \<le> \<bar>q\<bar> * 100 * eps + 100 * (\<bar>x0\<bar> * eps)"
    using e1 e2 by (intro add_mono) simp_all
  also have "\<dots> \<le> (2 * \<bar>x0\<bar>) * 100 * eps + 100 * (\<bar>x0\<bar> * eps)"
    using q2 eps by (intro add_right_mono mult_right_mono) simp_all
  also have "\<dots> = (300 * eps) * \<bar>of_int a\<bar> / of_int b"
    using bpos by (simp add: x0_def)
  finally have d: "\<bar>y - 100 * x0\<bar> \<le> (300 * eps) * \<bar>of_int a\<bar> / of_int b" .
  have "(\<bar>of_int a\<bar> :: rat) = of_int \<bar>a\<bar>" by simp
  also have "\<dots> < of_int (2 ^ 43)" using assms(2) by (simp only: of_int_less_iff)
  finally have "(\<bar>of_int a\<bar> :: rat) < 2 ^ 43" by simp
  then have "(300 * eps) * \<bar>of_int a\<bar> < (300 * eps) * 2 ^ 43"
    using eps by (intro mult_strict_left_mono) simp_all
  also have "\<dots> < 1 / 2" by (simp add: eps_def)
  finally have "(300 * eps) * \<bar>of_int a\<bar> < 1 / 2" .
  then have "(300 * eps) * \<bar>of_int a\<bar> / of_int b < (1 / 2) / of_int b"
    using bpos by (rule divide_strict_right_mono)
  with d have "\<bar>y - 100 * x0\<bar> < (1 / 2) / of_int b" by simp
  then show ?thesis by (simp add: y_def q_def x0_def)
qed


lemma round_near:
  fixes a b :: int and y :: rat
  assumes b: "0 < b" and d: "\<bar>y - 100 * of_int a / of_int b\<bar> < 1 / (2 * of_int b)"
  shows "\<bar>of_int \<lfloor>y + 1 / 2\<rfloor> - 100 * of_int a / of_int b\<bar> \<le> (1 / 2 :: rat)"
    and "(100 * of_int a / of_int b + 1 / 2 :: rat) \<notin> \<int> \<Longrightarrow>
         \<lfloor>y + 1 / 2\<rfloor> = \<lfloor>100 * of_int a / of_int b + 1 / 2 :: rat\<rfloor>"
proof -
  define x :: rat where "x = 100 * of_int a / of_int b"
  define k where "k = \<lfloor>x + 1 / 2\<rfloor>"
  define m where "m = 200 * a + b - 2 * b * k"
  define g :: rat where "g = 1 / (2 * of_int b)"
  have bpos: "(0::rat) < of_int b" using b by simp
  have g: "0 < g" using bpos by (simp add: g_def)
  have gb: "g * (2 * of_int b) = 1" using bpos by (simp add: g_def)
  have X: "x + 1 / 2 = of_int k + of_int m * g"
    using bpos by (simp add: x_def m_def g_def field_simps)
  have k1: "of_int k \<le> x + 1 / 2" and k2: "x + 1 / 2 < of_int k + 1"
    unfolding k_def by linarith+
  have "0 \<le> of_int m * g" using k1 X by simp
  then have "(0::rat) \<le> of_int m" using g by (simp add: zero_le_mult_iff)
  then have m0: "0 \<le> m" by simp
  have "of_int m * g < g * (2 * of_int b)" using k2 X gb by simp
  then have "(of_int m :: rat) < of_int (2 * b)" using g by (simp add: mult.commute)
  then have "m < 2 * b" by (simp only: of_int_less_iff)
  then have "m + 1 \<le> 2 * b" by simp
  then have "(of_int (m + 1) :: rat) \<le> of_int (2 * b)" by (simp only: of_int_le_iff)
  then have "of_int (m + 1) * g \<le> of_int (2 * b) * g" using g by (intro mult_right_mono) simp_all
  then have m1: "of_int m * g + g \<le> 1" using gb by (simp add: algebra_simps)
  have y1: "y < x + g" and y2: "x - g < y" using d by (simp_all add: x_def g_def abs_less_iff)
  have "y + 1 / 2 < of_int k + 1" using y1 X m1 by linarith
  then have "y + 1 / 2 < of_int (k + 1)" by simp
  then have "\<lfloor>y + 1 / 2\<rfloor> < k + 1" by (simp only: floor_less_iff)
  then have r1: "\<lfloor>y + 1 / 2\<rfloor> \<le> k" by simp
  have mg0: "0 \<le> of_int m * g" using m0 g by simp
  have "of_int k - 1 < y + 1 / 2" using y2 X mg0 m1 by linarith
  then have "of_int (k - 1) < y + 1 / 2" by simp
  then have r2: "k - 1 \<le> \<lfloor>y + 1 / 2\<rfloor>" by (simp add: le_floor_iff)
  have pos: "\<lfloor>y + 1 / 2\<rfloor> = k" if "m \<noteq> 0"
  proof -
    from that m0 have "1 \<le> m" by simp
    then have "(of_int 1 :: rat) \<le> of_int m" by (simp only: of_int_le_iff)
    then have "1 * g \<le> of_int m * g" using g by (intro mult_right_mono) simp_all
    then have "of_int k \<le> y + 1 / 2" using y2 X by simp
    then have "k \<le> \<lfloor>y + 1 / 2\<rfloor>" by (simp add: le_floor_iff)
    with r1 show ?thesis by simp
  qed
  show "\<bar>of_int \<lfloor>y + 1 / 2\<rfloor> - 100 * of_int a / of_int b\<bar> \<le> (1 / 2 :: rat)"
  proof (cases "m = 0")
    case True
    then have "x = of_int k - 1 / 2" using X by simp
    moreover have "\<lfloor>y + 1 / 2\<rfloor> = k \<or> \<lfloor>y + 1 / 2\<rfloor> = k - 1" using r1 r2 by linarith
    ultimately show ?thesis unfolding x_def [symmetric] by auto
  next
    case False
    have "\<bar>of_int k - x\<bar> \<le> 1 / 2" using mg0 X m1 g by linarith
    then show ?thesis
      unfolding x_def [symmetric] pos [OF False] .
  qed
  show "\<lfloor>y + 1 / 2\<rfloor> = \<lfloor>100 * of_int a / of_int b + 1 / 2 :: rat\<rfloor>"
    if "(100 * of_int a / of_int b + 1 / 2 :: rat) \<notin> \<int>"
  proof -
    have "m \<noteq> 0"
    proof
      assume "m = 0"
      then have "x + 1 / 2 = of_int k" using X by simp
      then show False using that by (simp add: x_def)
    qed
    with pos show ?thesis by (simp add: k_def x_def)
  qed
qed

text \<open>A rounded value has a significand of 53 bits at the exponent of its argument.\<close>

lemma fl_significand:
  assumes "x \<noteq> 0"
  shows "\<exists>m. fl x = of_int m * 2 powi (expo x - 52) \<and> 2 ^ 52 \<le> \<bar>m\<bar> \<and> \<bar>m\<bar> \<le> 2 ^ 53"
proof -
  define u :: rat where "u = 2 powi (expo x - 52)"
  define m where "m = rne (x / u)"
  have u: "0 < u" by (simp add: u_def)
  have e52: "2 powi expo x = 2 ^ 52 * u" and e53: "2 powi (expo x + 1) = 2 ^ 53 * u"
    by (simp_all add: u_def power_int_diff power_int_add)
  have lo: "2 ^ 52 \<le> \<bar>x\<bar> / u" and hi: "\<bar>x\<bar> / u \<le> 2 ^ 53"
    using expo_bounds [OF assms] u unfolding e52 e53 by (simp_all add: pos_le_divide_eq pos_divide_le_eq less_imp_le)
  have f: "fl x = of_int m * 2 powi (expo x - 52)"
    using assms by (simp add: fl_def Let_def m_def u_def)
  have "2 ^ 52 \<le> \<bar>m\<bar> \<and> \<bar>m\<bar> \<le> 2 ^ 53"
  proof (cases "0 < x")
    case True
    then have "of_int (2 ^ 52) \<le> x / u" "x / u \<le> of_int (2 ^ 53)" using lo hi by simp_all
    then have "2 ^ 52 \<le> m" "m \<le> 2 ^ 53"
      unfolding m_def by (simp_all only: rne_ge_int rne_le_int)
    then show ?thesis by simp
  next
    case False
    with assms have "x < 0" by simp
    then have "of_int (- (2 ^ 53)) \<le> x / u" "x / u \<le> of_int (- (2 ^ 52))"
      using lo hi u by (simp_all add: abs_if minus_divide_left [symmetric]) 
    then have "- (2 ^ 53) \<le> m" "m \<le> - (2 ^ 52)"
      unfolding m_def by (simp_all only: rne_ge_int rne_le_int)
    then show ?thesis by simp
  qed
  with f show ?thesis by blast
qed

text \<open>Two values: the binary64 nearest to one tenth, and the product that the accuracy
  of 23 correct answers out of 40 passes to \<^verbatim>\<open>Math.round\<close>, which is below 57.5.\<close>

lemma fl_one_tenth: "fl (1 / 10) = 3602879701896397 / 36028797018963968"
  by code_simp

lemma fl_example_product: "fl (fl (23 / 40) * 100) = 8092405580431359 / 140737488355328"
  by code_simp

subsection \<open>Facts about the accuracy\<close>

lemma floor_divide_numeral_rat:
  "\<lfloor>numeral a / numeral b :: rat\<rfloor> = numeral a div numeral b"
  using floor_divide_of_int_eq [of "numeral a" "numeral b", where ?'a = rat] by simp

lemma rounded_percent_23_40: "rounded_percent 23 40 = 57"
  by code_simp

lemma calculateAccuracy_Some:
  "totalQuestionsAnswered p \<noteq> 0 \<Longrightarrow>
   calculateAccuracy (Some p) =
   Finite (of_int (rounded_percent (correctAnswers p) (totalQuestionsAnswered p)))"
  by (simp add: calculateAccuracy_def percent_eval)

lemma calculateAccuracy_zero:
  "calculateAccuracy None = Finite 0"
  "totalQuestionsAnswered p = 0 \<Longrightarrow> calculateAccuracy (Some p) = Finite 0"
  by (simp_all add: calculateAccuracy_def)

lemma calculateAccuracy_integer: "\<exists>k. calculateAccuracy pr = Finite (of_int k)"
proof (cases pr)
  case None
  then show ?thesis using calculateAccuracy_zero(1) by (intro exI [of _ 0]) simp
next
  case (Some p)
  show ?thesis
  proof (cases "totalQuestionsAnswered p = 0")
    case True
    then show ?thesis using Some calculateAccuracy_zero(2) [of p] by (intro exI [of _ 0]) simp
  next
    case False
    then show ?thesis using Some calculateAccuracy_Some [of p] by blast
  qed
qed

lemma labels_distinct:
  "str_high \<noteq> str_mid" "str_high \<noteq> str_low" "str_mid \<noteq> str_low"
  by (simp_all add: str_high_def str_mid_def str_low_def)

lemma calculatePassProbability_Finite:
  "calculateAccuracy pr = Finite a \<Longrightarrow>
   calculatePassProbability pr =
     (if 70 \<le> a then str_high else if 60 \<le> a then str_mid else str_low)"
  by (simp add: calculatePassProbability_def)


lemma unguarded_division_by_zero:
  "\<not> isFinite (Math_round (js_mul (js_div (num_of_int a) (num_of_int 0)) (Finite 100)))"
  by (simp add: num_of_int_def inf_of_sign_def)

lemma categoryPercentage_cases:
  "categoryPercentage d =
     (if 0 < cp_totalQuestions d
      then Finite (of_int (rounded_percent (answeredQuestions d) (cp_totalQuestions d)))
      else Finite 0)"
  by (simp add: categoryPercentage_def percent_eval)

lemma categoryAccuracy_cases:
  "categoryAccuracy d =
     (if 0 < answeredQuestions d
      then Finite (of_int (rounded_percent (cp_correctAnswers d) (answeredQuestions d)))
      else Finite 0)"
  by (simp add: categoryAccuracy_def percent_eval)

lemma map_throwing_Inr:
  "map_throwing f xs = Inr ys \<Longrightarrow> list_all2 (\<lambda>x y. f x = Inr y) xs ys"
  by (induction xs arbitrary: ys) (auto split: sum.splits)

lemma studyCategoryRow_Inr:
  "studyCategoryRow p c = Inr r \<Longrightarrow>
   \<exists>d. categoryProgress p (name c) = Some d \<and>
       row_percentage r = categoryPercentage d \<and> row_accuracy r = categoryAccuracy d"
  by (auto simp: studyCategoryRow_def split: option.splits)

lemma mockCategoryCard_Inr:
  "mockCategoryCard p c = Inr r \<Longrightarrow>
   \<exists>d. categoryProgress p (name c) = Some d \<and>
       card_percentage r = categoryPercentage d \<and> card_accuracy r = categoryAccuracy d"
  by (auto simp: mockCategoryCard_def split: option.splits)


lemma rounded_percent_zero: "rounded_percent 0 b = 0"
  by (simp add: rounded_percent_def fl_def floor_eq_iff)

lemma sample_rows:
  "studyCategoryRows sampleCategories (initialProgress sampleCategories) =
     Inr [\<lparr>row_name = ''Regulations'', row_nameJa = None, row_answered = 0, row_total = 40,
           row_accuracy = Finite 0, row_percentage = Finite 0\<rparr>]"
  "mockCategoryCards sampleCategories (initialProgress sampleCategories) =
     Inr [\<lparr>card_name = ''Mock 1'', card_percentage = Finite 0, card_accuracy = Finite 0,
           card_accuracy_class = ''text-orange-500''\<rparr>]"
  by (simp_all add: studyCategoryRows_def mockCategoryCards_def studyCategories_def
      mockCategories_def sampleCategories_def studyCategoryRow_def mockCategoryCard_def
      initialProgress_def initialCategoryProgress_def categoryAccuracy_cases
      categoryPercentage_cases rounded_percent_zero)

subsection \<open>Facts about strings and lists\<close>

lemma includes_str_iff_sublist: "includes_str s p \<longleftrightarrow> sublist p s"
  by (induction s) (simp_all add: sublist_Cons_right)

lemma includes_str_iff: "includes_str s p \<longleftrightarrow> (\<exists>u v. s = u @ p @ v)"
  by (simp add: includes_str_iff_sublist sublist_def)

lemma includes_str_append: "includes_str (p @ s) p"
  unfolding includes_str_iff by (intro exI [of _ "[]"] exI [of _ s]) simp

lemma String_int_5: "String_int 5 = ''5''"
  by code_simp

lemma count_list_filter:
  "count_list (filter P xs) c = (if P c then count_list xs c else 0)"
  by (induction xs) simp_all

lemma count_list_filter_split:
  "count_list (filter (\<lambda>x. \<not> P x) xs) c + count_list (filter P xs) c = count_list xs c"
  by (simp add: count_list_filter)

subsection \<open>Facts about the loaders\<close>

lemma slice_last_five: "slice (- 5) xs = drop (length xs - 5) xs"
proof -
  have "nat (max (int (length xs) + - 5) 0) = length xs - 5" by simp
  then show ?thesis by (simp add: slice_def Let_def)
qed

lemma fold_entries_dom:
  "dom (fold (\<lambda>c m. m(name c \<mapsto> initialEntry c)) cs m) = dom m \<union> name ` set cs"
  by (induction cs arbitrary: m) auto

lemma fold_entries_other:
  "k \<notin> name ` set cs \<Longrightarrow> fold (\<lambda>c m. m(name c \<mapsto> initialEntry c)) cs m k = m k"
  by (induction cs arbitrary: m) auto

lemma fold_entries_entry:
  "c \<in> set cs \<Longrightarrow>
   \<exists>c' \<in> set cs. name c' = name c \<and>
     fold (\<lambda>c m. m(name c \<mapsto> initialEntry c)) cs m (name c) = Some (initialEntry c')"
proof (induction cs arbitrary: m c)
  case Nil
  then show ?case by simp
next
  case (Cons a cs)
  let ?m = "m(name a \<mapsto> initialEntry a)"
  show ?case
  proof (cases "name c \<in> name ` set cs")
    case True
    then obtain d where d: "d \<in> set cs" "name d = name c" by auto
    from Cons.IH [OF d(1), of ?m] d(2) show ?thesis by auto
  next
    case False
    with Cons.prems have ca: "c = a" by auto
    from False have "fold (\<lambda>c m. m(name c \<mapsto> initialEntry c)) cs ?m (name c) = ?m (name c)"
      by (rule fold_entries_other)
    also have "?m (name c) = Some (initialEntry a)" using ca by simp
    finally have F: "fold (\<lambda>c m. m(name c \<mapsto> initialEntry c)) (a # cs) m (name c) =
        Some (initialEntry a)" by (simp only: fold_simps)
    show ?thesis
    proof (intro bexI [of _ a] conjI)
      show "name a = name c" using ca by (rule arg_cong [OF sym])
      show "fold (\<lambda>c m. m(name c \<mapsto> initialEntry c)) (a # cs) m (name c) =
        Some (initialEntry a)" by (rule F)
      show "a \<in> set (a # cs)" by (rule list.set_intros)
    qed
  qed
qed

lemma initialCategoryProgress_fold:
  "initialCategoryProgress cs = fold (\<lambda>c m. m(name c \<mapsto> initialEntry c)) cs Map.empty"
  by (simp add: initialCategoryProgress_def initialEntry_def)

lemma initialCategoryProgress_dom: "dom (initialCategoryProgress cs) = name ` set cs"
  by (simp add: initialCategoryProgress_fold fold_entries_dom)

lemma initialCategoryProgress_entry:
  "c \<in> set cs \<Longrightarrow>
   \<exists>c' \<in> set cs. name c' = name c \<and>
     initialCategoryProgress cs (name c) = Some (initialEntry c')"
  unfolding initialCategoryProgress_fold by (rule fold_entries_entry)

lemma initialCategoryProgress_distinct:
  assumes "distinct (map name cs)" "c \<in> set cs"
  shows "initialCategoryProgress cs (name c) = Some (initialEntry c)"
proof -
  obtain c' where c': "c' \<in> set cs" "name c' = name c"
    "initialCategoryProgress cs (name c) = Some (initialEntry c')"
    using initialCategoryProgress_entry [OF assms(2)] by blast
  from assms c'(1,2) have "c' = c" by (meson distinct_map inj_onD)
  with c'(3) show ?thesis by simp
qed


lemma loadUserProgress_try_absent:
  assumes "getItem_progress E (localStorage s) (userProgressKey u) = Inr None"
  shows "loadUserProgress_try E u s =
     (case setItem E (localStorage s) (userProgressKey u) (initialProgress (categories E)) of
        Inl e \<Rightarrow> (s\<lparr>loading := True, progress := Some (initialProgress (categories E))\<rparr>, Some e)
      | Inr st \<Rightarrow>
          (s\<lparr>loading := True, progress := Some (initialProgress (categories E)),
             localStorage := st\<rparr>, None))"
  using assms by (simp add: loadUserProgress_try_def Let_def split: sum.splits)

lemma loadUserProgress_try_present:
  assumes "getItem_progress E (localStorage s) (userProgressKey u) = Inr (Some v)"
  shows "loadUserProgress_try E u s =
     (case validateAndFixProgress E v of
        Inl e \<Rightarrow> (s\<lparr>loading := True\<rparr>, Some e)
      | Inr w \<Rightarrow> (s\<lparr>loading := True, progress := Some w\<rparr>, None))"
  using assms by (simp add: loadUserProgress_try_def Let_def split: sum.splits)

lemma loadUserProgress_try_thrown:
  assumes "getItem_progress E (localStorage s) (userProgressKey u) = Inl e"
  shows "loadUserProgress_try E u s = (s\<lparr>loading := True\<rparr>, Some e)"
  using assms by (simp add: loadUserProgress_try_def Let_def)

lemma loadUserProgress_try_storage:
  "snd (loadUserProgress_try E u s) = Some e \<Longrightarrow>
   localStorage (fst (loadUserProgress_try E u s)) = localStorage s \<and>
   handledErrors (fst (loadUserProgress_try E u s)) = handledErrors s"
  by (auto simp: loadUserProgress_try_def Let_def split: sum.splits option.splits)

lemma loadUserProgress_try_errors:
  "handledErrors (fst (loadUserProgress_try E u s)) = handledErrors s"
  by (auto simp: loadUserProgress_try_def Let_def split: sum.splits option.splits)

lemma loadUserProgress_unfold:
  "loadUserProgress E u s =
     (case snd (loadUserProgress_try E u s) of
        None \<Rightarrow> fst (loadUserProgress_try E u s)
      | Some e \<Rightarrow> loadUserProgress_catch e (fst (loadUserProgress_try E u s)))\<lparr>loading := False\<rparr>"
  by (cases "loadUserProgress_try E u s") (simp add: loadUserProgress_def split: option.splits)

section \<open>The claims\<close>

subsection \<open>C1: the accuracy\<close>

text \<open>
  C1, as amended. \<^verbatim>\<open>calculateAccuracy\<close> returns 0 when there is no progress or when
  \<open>totalQuestionsAnswered\<close> is 0. For a progress with \<open>0 < totalQuestionsAnswered \<le> 2 ^ 53\<close>
  and \<open>\<bar>correctAnswers\<bar> < 2 ^ 43\<close> it returns an integer at distance at most \<open>1 / 2\<close> from
  the exact value of \<open>(correctAnswers / totalQuestionsAnswered) * 100\<close>, and this integer is
  \<^verbatim>\<open>Math.round\<close> of the exact value whenever the exact value is not halfway between two
  integers.
\<close>

theorem calculateAccuracy_nearest:
  "calculateAccuracy None = Finite 0 \<and>
   (totalQuestionsAnswered p = 0 \<longrightarrow> calculateAccuracy (Some p) = Finite 0) \<and>
   (0 < totalQuestionsAnswered p \<and> totalQuestionsAnswered p \<le> 2 ^ 53 \<and>
    \<bar>correctAnswers p\<bar> < 2 ^ 43 \<longrightarrow>
      (\<exists>k. calculateAccuracy (Some p) = Finite (of_int k) \<and>
           \<bar>of_int k - exact_percent p\<bar> \<le> 1 / 2 \<and>
           (exact_percent p + 1 / 2 \<notin> \<int> \<longrightarrow> k = calculateAccuracy_spec (Some p))))"
proof (intro conjI impI)
  show "calculateAccuracy None = Finite 0" by (rule calculateAccuracy_zero)
  show "calculateAccuracy (Some p) = Finite 0" if "totalQuestionsAnswered p = 0"
    using that by (rule calculateAccuracy_zero)
  assume h: "0 < totalQuestionsAnswered p \<and> totalQuestionsAnswered p \<le> 2 ^ 53 \<and>
    \<bar>correctAnswers p\<bar> < 2 ^ 43"
  let ?a = "correctAnswers p" and ?b = "totalQuestionsAnswered p"
  have b: "0 < ?b" and a: "\<bar>?a\<bar> < 2 ^ 43" using h by simp_all
  have e: "exact_percent p = 100 * of_int ?a / of_int ?b" by (simp add: exact_percent_def)
  note N = round_near [OF b double_rounding_error [OF b a], folded rounded_percent_def e]
  show "\<exists>k. calculateAccuracy (Some p) = Finite (of_int k) \<and>
           \<bar>of_int k - exact_percent p\<bar> \<le> 1 / 2 \<and>
           (exact_percent p + 1 / 2 \<notin> \<int> \<longrightarrow> k = calculateAccuracy_spec (Some p))"
  proof (intro exI [of _ "rounded_percent ?a ?b"] conjI impI)
    show "calculateAccuracy (Some p) = Finite (of_int (rounded_percent ?a ?b))"
      using b by (intro calculateAccuracy_Some) simp
    show "\<bar>of_int (rounded_percent ?a ?b) - exact_percent p\<bar> \<le> 1 / 2" by (rule N(1))
    show "rounded_percent ?a ?b = calculateAccuracy_spec (Some p)"
      if "exact_percent p + 1 / 2 \<notin> \<int>"
      using N(2) [OF that] b by (simp add: calculateAccuracy_spec_def)
  qed
qed

text \<open>Instances: 2 correct answers out of 3 give 67; no answers give 0.\<close>

theorem calculateAccuracy_nearest_witness:
  "calculateAccuracy (Some (sampleProgress 2 3)) = Finite 67 \<and>
   calculateAccuracy_spec (Some (sampleProgress 2 3)) = 67 \<and>
   \<bar>67 - exact_percent (sampleProgress 2 3)\<bar> \<le> 1 / 2 \<and>
   calculateAccuracy (Some (sampleProgress 5 0)) = Finite 0"
proof -
  let ?p = "sampleProgress 2 3"
  have e: "exact_percent ?p = 200 / 3" by (simp add: exact_percent_def sampleProgress_def)
  have "frac (exact_percent ?p + 1 / 2) \<noteq> 0" unfolding e by (simp add: frac_def floor_divide_numeral_rat)
  then have ni: "exact_percent ?p + 1 / 2 \<notin> \<int>" using frac_eq_0_iff by blast
  have s: "calculateAccuracy_spec (Some ?p) = 67"
    by (simp add: calculateAccuracy_spec_def exact_percent_def sampleProgress_def
        floor_divide_numeral_rat)
  have h: "0 < totalQuestionsAnswered ?p \<and> totalQuestionsAnswered ?p \<le> 2 ^ 53 \<and>
    \<bar>correctAnswers ?p\<bar> < 2 ^ 43" by (simp add: sampleProgress_def)
  have z: "calculateAccuracy (Some (sampleProgress 5 0)) = Finite 0"
    using calculateAccuracy_nearest [of "sampleProgress 5 0"] by (simp add: sampleProgress_def)
  from calculateAccuracy_nearest [of ?p] h ni s z
  show ?thesis by auto
qed

text \<open>
  C1 as stated fails at a tie. With 23 correct answers out of 40 the exact percentage is
  57.5, which \<^verbatim>\<open>Math.round\<close> takes to 58; the quotient 0.575 is not a binary64 value,
  its product with 100 is rounded to the binary64 value just below 57.5, and the function
  returns 57.
\<close>

theorem calculateAccuracy_tie_counterexample:
  "calculateAccuracy (Some (sampleProgress 23 40)) = Finite 57 \<and>
   calculateAccuracy_spec (Some (sampleProgress 23 40)) = 58"
  by (simp add: calculateAccuracy_Some sampleProgress_def rounded_percent_23_40
      calculateAccuracy_spec_def exact_percent_def)

subsection \<open>C2: guarded divisions\<close>

text \<open>
  C2. No percentage on the page divides by zero. \<^verbatim>\<open>calculateAccuracy\<close> returns 0 when
  \<open>totalQuestionsAnswered\<close> is 0, the progress percentage of a category is 0 when its
  \<open>totalQuestions\<close> is 0, and its accuracy is 0 when its \<open>answeredQuestions\<close> is 0. Each of
  the three numbers is always finite, whereas a division by zero would make it \<^verbatim>\<open>NaN\<close>
  or infinite (\<open>unguarded_division_by_zero\<close>). The rows of the study list and the cards
  of the mock list both show these two guarded numbers of the category's entry.
\<close>

theorem percentages_guarded:
  "(totalQuestionsAnswered p = 0 \<longrightarrow> calculateAccuracy (Some p) = Finite 0) \<and>
   isFinite (calculateAccuracy pr) \<and>
   (cp_totalQuestions d = 0 \<longrightarrow> categoryPercentage d = Finite 0) \<and>
   isFinite (categoryPercentage d) \<and>
   (answeredQuestions d = 0 \<longrightarrow> categoryAccuracy d = Finite 0) \<and>
   isFinite (categoryAccuracy d) \<and>
   (studyCategoryRows cs q = Inr rows \<longrightarrow>
      list_all2 (\<lambda>c r. \<exists>d. categoryProgress q (name c) = Some d \<and>
                    row_percentage r = categoryPercentage d \<and>
                    row_accuracy r = categoryAccuracy d)
        (studyCategories cs) rows) \<and>
   (mockCategoryCards cs q = Inr cards \<longrightarrow>
      list_all2 (\<lambda>c r. \<exists>d. categoryProgress q (name c) = Some d \<and>
                    card_percentage r = categoryPercentage d \<and>
                    card_accuracy r = categoryAccuracy d)
        (mockCategories cs) cards)"
proof (intro conjI impI)
  show "calculateAccuracy (Some p) = Finite 0" if "totalQuestionsAnswered p = 0"
    using that by (rule calculateAccuracy_zero)
  show "isFinite (calculateAccuracy pr)"
    using calculateAccuracy_integer [of pr] by auto
  show "categoryPercentage d = Finite 0" if "cp_totalQuestions d = 0"
    using that by (simp add: categoryPercentage_cases)
  show "isFinite (categoryPercentage d)" by (simp add: categoryPercentage_cases)
  show "categoryAccuracy d = Finite 0" if "answeredQuestions d = 0"
    using that by (simp add: categoryAccuracy_cases)
  show "isFinite (categoryAccuracy d)" by (simp add: categoryAccuracy_cases)
next
  assume "studyCategoryRows cs q = Inr rows"
  then have "list_all2 (\<lambda>c r. studyCategoryRow q c = Inr r) (studyCategories cs) rows"
    unfolding studyCategoryRows_def by (rule map_throwing_Inr)
  then show "list_all2 (\<lambda>c r. \<exists>d. categoryProgress q (name c) = Some d \<and>
                    row_percentage r = categoryPercentage d \<and>
                    row_accuracy r = categoryAccuracy d) (studyCategories cs) rows"
    by (rule list_all2_mono) (rule studyCategoryRow_Inr)
next
  assume "mockCategoryCards cs q = Inr cards"
  then have "list_all2 (\<lambda>c r. mockCategoryCard q c = Inr r) (mockCategories cs) cards"
    unfolding mockCategoryCards_def by (rule map_throwing_Inr)
  then show "list_all2 (\<lambda>c r. \<exists>d. categoryProgress q (name c) = Some d \<and>
                    card_percentage r = categoryPercentage d \<and>
                    card_accuracy r = categoryAccuracy d) (mockCategories cs) cards"
    by (rule list_all2_mono) (rule mockCategoryCard_Inr)
qed

text \<open>An instance: a progress and a category entry without answers, and the rows and
  cards of the sample categories.\<close>

theorem percentages_guarded_witness:
  "calculateAccuracy (Some (sampleProgress 5 0)) = Finite 0 \<and>
   categoryPercentage \<lparr>cp_totalQuestions = 0, answeredQuestions = 0, cp_correctAnswers = 0\<rparr> = Finite 0 \<and>
   categoryAccuracy \<lparr>cp_totalQuestions = 0, answeredQuestions = 0, cp_correctAnswers = 0\<rparr> = Finite 0 \<and>
   list_all2 (\<lambda>c r. \<exists>d. categoryProgress (initialProgress sampleCategories) (name c) = Some d \<and>
                row_percentage r = categoryPercentage d \<and> row_accuracy r = categoryAccuracy d)
     (studyCategories sampleCategories)
     [\<lparr>row_name = ''Regulations'', row_nameJa = None, row_answered = 0, row_total = 40,
       row_accuracy = Finite 0, row_percentage = Finite 0\<rparr>] \<and>
   list_all2 (\<lambda>c r. \<exists>d. categoryProgress (initialProgress sampleCategories) (name c) = Some d \<and>
                card_percentage r = categoryPercentage d \<and> card_accuracy r = categoryAccuracy d)
     (mockCategories sampleCategories)
     [\<lparr>card_name = ''Mock 1'', card_percentage = Finite 0, card_accuracy = Finite 0,
       card_accuracy_class = ''text-orange-500''\<rparr>]"
  using percentages_guarded [of "sampleProgress 5 0" None
      "\<lparr>cp_totalQuestions = 0, answeredQuestions = 0, cp_correctAnswers = 0\<rparr>"
      sampleCategories "initialProgress sampleCategories", OF ] sample_rows
  by (simp add: sampleProgress_def)

subsection \<open>C3: the pass probability\<close>

text \<open>
  C3. \<^verbatim>\<open>calculatePassProbability\<close> sorts the accuracy into three bands: the label is
  ``high'' exactly when the accuracy is at least 70, ``middle'' exactly when it is at
  least 60 and below 70, and ``low'' exactly when it is below 60.
\<close>

theorem calculatePassProbability_bands:
  "\<exists>a. calculateAccuracy pr = Finite a \<and>
       (calculatePassProbability pr = str_high \<longleftrightarrow> 70 \<le> a) \<and>
       (calculatePassProbability pr = str_mid \<longleftrightarrow> 60 \<le> a \<and> a < 70) \<and>
       (calculatePassProbability pr = str_low \<longleftrightarrow> a < 60)"
proof -
  obtain k where k: "calculateAccuracy pr = Finite (of_int k)"
    using calculateAccuracy_integer by blast
  show ?thesis
    using labels_distinct labels_distinct [symmetric]
    by (intro exI [of _ "of_int k"]) (auto simp: k calculatePassProbability_Finite [OF k])
qed

text \<open>An instance: 13 correct answers out of 20 give 65 and the label ``middle''.\<close>

theorem calculatePassProbability_bands_witness:
  "calculateAccuracy (Some (sampleProgress 13 20)) = Finite 65 \<and>
   calculatePassProbability (Some (sampleProgress 13 20)) = str_mid"
proof -
  have r: "rounded_percent 13 20 = 65" by code_simp
  have a: "calculateAccuracy (Some (sampleProgress 13 20)) = Finite 65"
    by (simp add: calculateAccuracy_Some sampleProgress_def r)
  from calculatePassProbability_bands [of "Some (sampleProgress 13 20)"] a
  show ?thesis by auto
qed

subsection \<open>C4: loading the progress\<close>

text \<open>
  C4. When storage has no entry under the key \<^verbatim>\<open>userProgress_\<close> followed by the nickname
  and the write succeeds, \<^verbatim>\<open>loadUserProgress\<close> shows the initial progress and storage
  becomes what \<^verbatim>\<open>setItem\<close> makes of it with that key and that same value. When there
  is an entry that validation accepts, the validated value is shown and storage is
  left as it was. The initial progress has all counters zero, empty lists, and for every
  category an entry under its name with no answers; the entry carries the category's
  own \<open>totalQuestions\<close> when the names are distinct.
\<close>

theorem loadUserProgress_initialises:
  "(getItem_progress E (localStorage s) (userProgressKey u) = Inr None \<and>
    setItem E (localStorage s) (userProgressKey u) (initialProgress (categories E)) = Inr st \<longrightarrow>
      progress (loadUserProgress E u s) = Some (initialProgress (categories E)) \<and>
      localStorage (loadUserProgress E u s) = st \<and>
      handledErrors (loadUserProgress E u s) = handledErrors s) \<and>
   (getItem_progress E (localStorage s) (userProgressKey u) = Inr (Some v) \<and>
    validateAndFixProgress E v = Inr w \<longrightarrow>
      progress (loadUserProgress E u s) = Some w \<and>
      localStorage (loadUserProgress E u s) = localStorage s \<and>
      handledErrors (loadUserProgress E u s) = handledErrors s) \<and>
   userProgressKey (Some \<lparr>nickname = n\<rparr>) = ''userProgress_'' @ n \<and>
   totalQuestionsAnswered (initialProgress cs) = 0 \<and>
   correctAnswers (initialProgress cs) = 0 \<and>
   currentStreak (initialProgress cs) = 0 \<and>
   studySessions (initialProgress cs) = [] \<and>
   incorrectQuestions (initialProgress cs) = Some [] \<and>
   overcomeQuestions (initialProgress cs) = Some [] \<and>
   dom (categoryProgress (initialProgress cs)) = name ` set cs \<and>
   (\<forall>c \<in> set cs. \<exists>c' \<in> set cs. name c' = name c \<and>
      categoryProgress (initialProgress cs) (name c) = Some (initialEntry c')) \<and>
   (distinct (map name cs) \<longrightarrow>
      (\<forall>c \<in> set cs. categoryProgress (initialProgress cs) (name c) = Some (initialEntry c)))"
proof (intro conjI impI ballI)
  assume h: "getItem_progress E (localStorage s) (userProgressKey u) = Inr None \<and>
    setItem E (localStorage s) (userProgressKey u) (initialProgress (categories E)) = Inr st"
  then have t: "loadUserProgress_try E u s =
      (s\<lparr>loading := True, progress := Some (initialProgress (categories E)),
         localStorage := st\<rparr>, None)"
    by (simp add: loadUserProgress_try_absent)
  show "progress (loadUserProgress E u s) = Some (initialProgress (categories E))"
    and "localStorage (loadUserProgress E u s) = st"
    and "handledErrors (loadUserProgress E u s) = handledErrors s"
    by (simp_all add: loadUserProgress_unfold t)
next
  assume h: "getItem_progress E (localStorage s) (userProgressKey u) = Inr (Some v) \<and>
    validateAndFixProgress E v = Inr w"
  then have t: "loadUserProgress_try E u s = (s\<lparr>loading := True, progress := Some w\<rparr>, None)"
    by (simp add: loadUserProgress_try_present)
  show "progress (loadUserProgress E u s) = Some w"
    and "localStorage (loadUserProgress E u s) = localStorage s"
    and "handledErrors (loadUserProgress E u s) = handledErrors s"
    by (simp_all add: loadUserProgress_unfold t)
next
  show "userProgressKey (Some \<lparr>nickname = n\<rparr>) = ''userProgress_'' @ n"
    by (simp add: userProgressKey_def nickname_text_def)
  show "dom (categoryProgress (initialProgress cs)) = name ` set cs"
    by (simp add: initialProgress_def initialCategoryProgress_dom)
  show "\<exists>c' \<in> set cs. name c' = name c \<and>
      categoryProgress (initialProgress cs) (name c) = Some (initialEntry c')"
    if "c \<in> set cs" for c
    using initialCategoryProgress_entry [OF that] by (simp add: initialProgress_def)
  show "categoryProgress (initialProgress cs) (name c) = Some (initialEntry c)"
    if "distinct (map name cs)" "c \<in> set cs" for c
    using initialCategoryProgress_distinct [OF that] by (simp add: initialProgress_def)
qed (simp_all add: initialProgress_def)

text \<open>Instances: a storage without progress, and one with a stored progress.\<close>

theorem loadUserProgress_initialises_witness:
  "progress (loadUserProgress (memoryEnv sampleCategories) sampleUser (mounted sampleMemory)) =
     Some (initialProgress sampleCategories) \<and>
   fst (localStorage (loadUserProgress (memoryEnv sampleCategories) sampleUser (mounted sampleMemory)))
     ''userProgress_taro'' = Some (initialProgress sampleCategories) \<and>
   progress (loadUserProgress (memoryEnv sampleCategories) sampleUser (mounted storedMemory)) =
     Some (sampleProgress 23 40) \<and>
   localStorage (loadUserProgress (memoryEnv sampleCategories) sampleUser (mounted storedMemory)) =
     storedMemory \<and>
   categoryProgress (initialProgress sampleCategories) ''Mock 1'' =
     Some \<lparr>cp_totalQuestions = 75, answeredQuestions = 0, cp_correctAnswers = 0\<rparr>"
proof -
  let ?E = "memoryEnv sampleCategories"
  have k: "userProgressKey sampleUser = ''userProgress_taro''"
    by (simp add: userProgressKey_def nickname_text_def sampleUser_def)
  have a: "getItem_progress ?E (localStorage (mounted sampleMemory)) (userProgressKey sampleUser) =
      Inr None \<and>
    setItem ?E (localStorage (mounted sampleMemory)) (userProgressKey sampleUser)
      (initialProgress (categories ?E)) =
      Inr ((fst sampleMemory)(''userProgress_taro'' \<mapsto> initialProgress sampleCategories),
           snd sampleMemory)"
    by (simp add: k memoryEnv_def mounted_def sampleMemory_def)
  have b: "getItem_progress ?E (localStorage (mounted storedMemory)) (userProgressKey sampleUser) =
      Inr (Some (sampleProgress 23 40)) \<and>
    validateAndFixProgress ?E (sampleProgress 23 40) = Inr (sampleProgress 23 40)"
    by (simp add: k memoryEnv_def mounted_def storedMemory_def)
  have c: "categories ?E = sampleCategories" by (simp add: memoryEnv_def)
  from loadUserProgress_initialises [of ?E "mounted sampleMemory" sampleUser
      "((fst sampleMemory)(''userProgress_taro'' \<mapsto> initialProgress sampleCategories),
           snd sampleMemory)"] a c
  have 1: "progress (loadUserProgress ?E sampleUser (mounted sampleMemory)) =
     Some (initialProgress sampleCategories)"
    and 2: "fst (localStorage (loadUserProgress ?E sampleUser (mounted sampleMemory)))
     ''userProgress_taro'' = Some (initialProgress sampleCategories)"
    by simp_all
  from loadUserProgress_initialises [of ?E "mounted storedMemory" sampleUser _
      "sampleProgress 23 40" "sampleProgress 23 40"] b
  have 3: "progress (loadUserProgress ?E sampleUser (mounted storedMemory)) =
     Some (sampleProgress 23 40)"
    and 4: "localStorage (loadUserProgress ?E sampleUser (mounted storedMemory)) = storedMemory"
    by (simp_all add: mounted_def)
  have D: "distinct (map name sampleCategories) \<longrightarrow>
      (\<forall>c \<in> set sampleCategories.
         categoryProgress (initialProgress sampleCategories) (name c) = Some (initialEntry c))"
    using loadUserProgress_initialises [where cs = sampleCategories and E = ?E
        and s = "mounted sampleMemory" and u = sampleUser and st = sampleMemory
        and v = "sampleProgress 0 0" and w = "sampleProgress 0 0" and n = "''taro''"]
    by (elim conjE)
  have "distinct (map name sampleCategories)"
    and "\<lparr>name = ''Mock 1'', nameJa = None, totalQuestions = 75\<rparr> \<in> set sampleCategories"
    by (simp_all add: sampleCategories_def)
  with D have "categoryProgress (initialProgress sampleCategories)
      (name \<lparr>name = ''Mock 1'', nameJa = None, totalQuestions = 75\<rparr>) =
     Some (initialEntry \<lparr>name = ''Mock 1'', nameJa = None, totalQuestions = 75\<rparr>)"
    by (simp only:)
  then have 5: "categoryProgress (initialProgress sampleCategories) ''Mock 1'' =
     Some \<lparr>cp_totalQuestions = 75, answeredQuestions = 0, cp_correctAnswers = 0\<rparr>"
    by (simp add: initialEntry_def)
  from 1 2 3 4 5 show ?thesis by simp
qed

subsection \<open>C5: failure while loading\<close>

text \<open>
  C5. \<^verbatim>\<open>loadUserProgress\<close> always ends with \<open>loading = False\<close>. The \<^verbatim>\<open>catch\<close> block only
  reports the thrown value to \<^verbatim>\<open>handleError\<close> with its fixed message: it changes
  neither the progress nor storage. So when the \<^verbatim>\<open>try\<close> block throws, exactly one report
  is added, storage is unchanged, and the progress is what the \<^verbatim>\<open>try\<close> block left:
  the previous one when reading or validating threw, the initial one when writing
  threw. Without an exception nothing is reported.
\<close>

theorem loadUserProgress_failure:
  "loading (loadUserProgress E u s) = False \<and>
   progress (loadUserProgress_catch e t) = progress t \<and>
   localStorage (loadUserProgress_catch e t) = localStorage t \<and>
   handledErrors (loadUserProgress_catch e t) = handledErrors t @ [(e, msg_load_failed)] \<and>
   (snd (loadUserProgress_try E u s) = Some e \<longrightarrow>
      loadUserProgress E u s =
        (loadUserProgress_catch e (fst (loadUserProgress_try E u s)))\<lparr>loading := False\<rparr> \<and>
      handledErrors (loadUserProgress E u s) = handledErrors s @ [(e, msg_load_failed)] \<and>
      progress (loadUserProgress E u s) = progress (fst (loadUserProgress_try E u s)) \<and>
      localStorage (loadUserProgress E u s) = localStorage s) \<and>
   (snd (loadUserProgress_try E u s) = None \<longrightarrow>
      handledErrors (loadUserProgress E u s) = handledErrors s) \<and>
   (getItem_progress E (localStorage s) (userProgressKey u) = Inl e \<longrightarrow>
      snd (loadUserProgress_try E u s) = Some e \<and>
      progress (loadUserProgress E u s) = progress s) \<and>
   (getItem_progress E (localStorage s) (userProgressKey u) = Inr (Some v) \<and>
    validateAndFixProgress E v = Inl e \<longrightarrow>
      snd (loadUserProgress_try E u s) = Some e \<and>
      progress (loadUserProgress E u s) = progress s) \<and>
   (getItem_progress E (localStorage s) (userProgressKey u) = Inr None \<and>
    setItem E (localStorage s) (userProgressKey u) (initialProgress (categories E)) = Inl e \<longrightarrow>
      snd (loadUserProgress_try E u s) = Some e \<and>
      progress (loadUserProgress E u s) = Some (initialProgress (categories E)))"
proof (intro conjI impI)
  show "loading (loadUserProgress E u s) = False"
    by (simp add: loadUserProgress_unfold)
  show "progress (loadUserProgress_catch e t) = progress t"
    and "localStorage (loadUserProgress_catch e t) = localStorage t"
    and "handledErrors (loadUserProgress_catch e t) = handledErrors t @ [(e, msg_load_failed)]"
    by (simp_all add: loadUserProgress_catch_def handleError_def)
next
  assume r: "snd (loadUserProgress_try E u s) = Some e"
  note S = loadUserProgress_try_storage [OF r]
  show "loadUserProgress E u s =
        (loadUserProgress_catch e (fst (loadUserProgress_try E u s)))\<lparr>loading := False\<rparr>"
    by (simp add: loadUserProgress_unfold r)
  then show "handledErrors (loadUserProgress E u s) = handledErrors s @ [(e, msg_load_failed)]"
    and "progress (loadUserProgress E u s) = progress (fst (loadUserProgress_try E u s))"
    and "localStorage (loadUserProgress E u s) = localStorage s"
    using S by (simp_all add: loadUserProgress_catch_def handleError_def)
next
  assume "snd (loadUserProgress_try E u s) = None"
  then show "handledErrors (loadUserProgress E u s) = handledErrors s"
    by (simp add: loadUserProgress_unfold loadUserProgress_try_errors)
next
  assume "getItem_progress E (localStorage s) (userProgressKey u) = Inl e"
  then have t: "loadUserProgress_try E u s = (s\<lparr>loading := True\<rparr>, Some e)"
    by (rule loadUserProgress_try_thrown)
  show "snd (loadUserProgress_try E u s) = Some e"
    and "progress (loadUserProgress E u s) = progress s"
    by (simp_all add: loadUserProgress_unfold t loadUserProgress_catch_def handleError_def)
next
  assume "getItem_progress E (localStorage s) (userProgressKey u) = Inr (Some v) \<and>
    validateAndFixProgress E v = Inl e"
  then have t: "loadUserProgress_try E u s = (s\<lparr>loading := True\<rparr>, Some e)"
    by (simp add: loadUserProgress_try_present)
  show "snd (loadUserProgress_try E u s) = Some e"
    and "progress (loadUserProgress E u s) = progress s"
    by (simp_all add: loadUserProgress_unfold t loadUserProgress_catch_def handleError_def)
next
  assume "getItem_progress E (localStorage s) (userProgressKey u) = Inr None \<and>
    setItem E (localStorage s) (userProgressKey u) (initialProgress (categories E)) = Inl e"
  then have t: "loadUserProgress_try E u s =
      (s\<lparr>loading := True, progress := Some (initialProgress (categories E))\<rparr>, Some e)"
    by (simp add: loadUserProgress_try_absent)
  show "snd (loadUserProgress_try E u s) = Some e"
    and "progress (loadUserProgress E u s) = Some (initialProgress (categories E))"
    by (simp_all add: loadUserProgress_unfold t loadUserProgress_catch_def handleError_def)
qed

text \<open>An instance: storage that throws on every access.\<close>

theorem loadUserProgress_failure_witness:
  "loading (loadUserProgress (brokenEnv sampleCategories) sampleUser (mounted sampleMemory)) = False \<and>
   progress (loadUserProgress (brokenEnv sampleCategories) sampleUser (mounted sampleMemory)) = None \<and>
   localStorage (loadUserProgress (brokenEnv sampleCategories) sampleUser (mounted sampleMemory)) =
     sampleMemory \<and>
   handledErrors (loadUserProgress (brokenEnv sampleCategories) sampleUser (mounted sampleMemory)) =
     [(Thrown ''SecurityError'', msg_load_failed)]"
proof -
  let ?E = "brokenEnv sampleCategories" and ?e = "Thrown ''SecurityError''"
  have g: "getItem_progress ?E (localStorage (mounted sampleMemory)) (userProgressKey sampleUser) =
      Inl ?e"
    by (simp add: brokenEnv_def)
  from loadUserProgress_failure [where E = ?E and u = sampleUser and s = "mounted sampleMemory"
      and e = ?e and t = "mounted sampleMemory" and v = "sampleProgress 0 0"] g
  have "loading (loadUserProgress ?E sampleUser (mounted sampleMemory)) = False"
    and "handledErrors (loadUserProgress ?E sampleUser (mounted sampleMemory)) =
       handledErrors (mounted sampleMemory) @ [(?e, msg_load_failed)]"
    and "progress (loadUserProgress ?E sampleUser (mounted sampleMemory)) =
       progress (mounted sampleMemory)"
    and "localStorage (loadUserProgress ?E sampleUser (mounted sampleMemory)) =
       localStorage (mounted sampleMemory)"
    by blast+
  then show ?thesis by (simp add: mounted_def)
qed

subsection \<open>C6: the streak status\<close>

text \<open>
  C6. \<^verbatim>\<open>getStreakStatus\<close> has four cases. Without progress, or with a streak of 0, the
  colour is gray and the message is a prompt to start; a streak of 1 or 2 gives orange,
  a streak of 3 to 6 blue, a streak of 7 or more green, each with the streak number
  followed by a fixed text. For every positive streak the message contains the decimal
  numeral of the streak, and for a streak that is not negative the colour determines
  the case.
\<close>

theorem getStreakStatus_cases:
  "getStreakStatus None = \<lparr>message = msg_start, status_color = ''text-gray-500''\<rparr> \<and>
   (currentStreak p = 0 \<longrightarrow>
      getStreakStatus (Some p) = \<lparr>message = msg_today, status_color = ''text-gray-500''\<rparr>) \<and>
   (1 \<le> currentStreak p \<and> currentStreak p \<le> 2 \<longrightarrow>
      getStreakStatus (Some p) =
        \<lparr>message = String_int (currentStreak p) @ msg_streak,
         status_color = ''text-orange-500''\<rparr>) \<and>
   (3 \<le> currentStreak p \<and> currentStreak p \<le> 6 \<longrightarrow>
      getStreakStatus (Some p) =
        \<lparr>message = String_int (currentStreak p) @ msg_streak_great,
         status_color = ''text-blue-500''\<rparr>) \<and>
   (7 \<le> currentStreak p \<longrightarrow>
      getStreakStatus (Some p) =
        \<lparr>message = String_int (currentStreak p) @ msg_streak_amazing,
         status_color = ''text-green-500''\<rparr>) \<and>
   (0 < currentStreak p \<longrightarrow>
      includes_str (message (getStreakStatus (Some p))) (String_int (currentStreak p))) \<and>
   (0 \<le> currentStreak p \<longrightarrow>
      (status_color (getStreakStatus (Some p)) = ''text-gray-500'' \<longleftrightarrow> currentStreak p = 0) \<and>
      (status_color (getStreakStatus (Some p)) = ''text-orange-500'' \<longleftrightarrow>
         1 \<le> currentStreak p \<and> currentStreak p \<le> 2) \<and>
      (status_color (getStreakStatus (Some p)) = ''text-blue-500'' \<longleftrightarrow>
         3 \<le> currentStreak p \<and> currentStreak p \<le> 6) \<and>
      (status_color (getStreakStatus (Some p)) = ''text-green-500'' \<longleftrightarrow> 7 \<le> currentStreak p))"
  by (simp add: getStreakStatus_def includes_str_append)

text \<open>An instance: a streak of 5 days.\<close>

theorem getStreakStatus_cases_witness:
  "getStreakStatus (Some ((initialProgress sampleCategories)\<lparr>currentStreak := 5\<rparr>)) =
     \<lparr>message = ''5'' @ msg_streak_great, status_color = ''text-blue-500''\<rparr> \<and>
   includes_str (message (getStreakStatus (Some ((initialProgress sampleCategories)\<lparr>currentStreak := 5\<rparr>)))) ''5''"
  using getStreakStatus_cases [of "(initialProgress sampleCategories)\<lparr>currentStreak := 5\<rparr>"]
  by (simp add: String_int_5)

subsection \<open>C7: the quick actions\<close>

text \<open>
  C7. The list of quick actions has four entries with fixed targets. Only the third,
  the review of incorrect questions, can be disabled, and it is disabled exactly when the
  count of incorrect questions is 0; a missing progress or a missing list counts as 0.
  Its description starts with the decimal numeral of that count. The link rendered for
  a disabled action has the target \<^verbatim>\<open>#\<close>, any other link the target of its action.
\<close>

theorem quickActions_review:
  "length (quickActions pr) = 4 \<and>
   map href (quickActions pr) =
     [''/study?mode=category'', ''/study?mode=mock'', ''/study/session?mode=review'', ''/questions''] \<and>
   map title (quickActions pr) = [title_category, title_mock, title_review, title_list] \<and>
   map (\<lambda>a. truthy (disabled a)) (quickActions pr) =
     [False, False, getIncorrectQuestionsCount pr = 0, False] \<and>
   description (quickActions pr ! 2) =
     String_int (getIncorrectQuestionsCount pr) @ desc_review_suffix \<and>
   getIncorrectQuestionsCount None = 0 \<and>
   (incorrectQuestions p = None \<longrightarrow> getIncorrectQuestionsCount (Some p) = 0) \<and>
   (incorrectQuestions p = Some qs \<longrightarrow> getIncorrectQuestionsCount (Some p) = int (length qs)) \<and>
   (truthy (disabled a) \<longrightarrow> link_href (renderQuickAction a) = ''#'') \<and>
   (\<not> truthy (disabled a) \<longrightarrow> link_href (renderQuickAction a) = href a) \<and>
   map link_href (renderQuickActions pr) =
     [''/study?mode=category'', ''/study?mode=mock'',
      if getIncorrectQuestionsCount pr = 0 then ''#'' else ''/study/session?mode=review'',
      ''/questions'']"
  by (simp add: quickActions_def renderQuickActions_def renderQuickAction_def truthy_def
      getIncorrectQuestionsCount_def)

text \<open>An instance: two incorrect questions, and none.\<close>

theorem quickActions_review_witness:
  "getIncorrectQuestionsCount (Some ((initialProgress sampleCategories)\<lparr>incorrectQuestions := Some [JStr ''q1'', JStr ''q2'']\<rparr>)) = 2 \<and>
   map link_href (renderQuickActions (Some ((initialProgress sampleCategories)\<lparr>incorrectQuestions := Some [JStr ''q1'', JStr ''q2'']\<rparr>))) =
     [''/study?mode=category'', ''/study?mode=mock'', ''/study/session?mode=review'', ''/questions''] \<and>
   map link_href (renderQuickActions (Some (initialProgress sampleCategories))) =
     [''/study?mode=category'', ''/study?mode=mock'', ''#'', ''/questions'']"
proof -
  let ?p = "(initialProgress sampleCategories)\<lparr>incorrectQuestions := Some [JStr ''q1'', JStr ''q2'']\<rparr>"
  have i: "incorrectQuestions ?p = Some [JStr ''q1'', JStr ''q2'']" by simp
  have j: "incorrectQuestions (initialProgress sampleCategories) = Some []"
    by (simp add: initialProgress_def)
  from quickActions_review [of "Some ?p" ?p "[JStr ''q1'', JStr ''q2'']"] i
  have a: "getIncorrectQuestionsCount (Some ?p) = 2"
    and b: "map link_href (renderQuickActions (Some ?p)) =
     [''/study?mode=category'', ''/study?mode=mock'', ''/study/session?mode=review'', ''/questions'']"
    by simp_all
  from quickActions_review [of "Some (initialProgress sampleCategories)" "initialProgress sampleCategories" "[]"] j
  have c: "map link_href (renderQuickActions (Some (initialProgress sampleCategories))) =
     [''/study?mode=category'', ''/study?mode=mock'', ''#'', ''/questions'']"
    by simp
  from a b c show ?thesis by simp
qed

subsection \<open>C8: the mock exam history\<close>

text \<open>
  C8. When reading the stored history does not throw, \<^verbatim>\<open>loadMockExamHistory\<close> shows the
  last \<open>min 5 (length h)\<close> entries of the stored list \<open>h\<close> in reverse order, which are the
  first entries of the reversed list; so at most 5 entries are shown, and a missing
  value shows none.
\<close>

theorem loadMockExamHistory_recent:
  "getItem_history E (localStorage s) (mockExamHistoryKey u) = Inr r \<longrightarrow>
   mockExamHistory (loadMockExamHistory E u s) =
     rev (drop (length (case r of None \<Rightarrow> [] | Some h \<Rightarrow> h)
                - min 5 (length (case r of None \<Rightarrow> [] | Some h \<Rightarrow> h)))
            (case r of None \<Rightarrow> [] | Some h \<Rightarrow> h)) \<and>
   mockExamHistory (loadMockExamHistory E u s) =
     take (min 5 (length (case r of None \<Rightarrow> [] | Some h \<Rightarrow> h)))
       (rev (case r of None \<Rightarrow> [] | Some h \<Rightarrow> h)) \<and>
   length (mockExamHistory (loadMockExamHistory E u s)) =
     min 5 (length (case r of None \<Rightarrow> [] | Some h \<Rightarrow> h)) \<and>
   length (mockExamHistory (loadMockExamHistory E u s)) \<le> 5 \<and>
   (r = None \<longrightarrow> mockExamHistory (loadMockExamHistory E u s) = [])"
proof
  assume g: "getItem_history E (localStorage s) (mockExamHistoryKey u) = Inr r"
  define h where "h = (case r of None \<Rightarrow> [] | Some h \<Rightarrow> h)"
  have m: "mockExamHistory (loadMockExamHistory E u s) = rev (drop (length h - 5) h)"
    by (simp add: loadMockExamHistory_def g h_def slice_last_five Let_def)
  have d: "length h - min 5 (length h) = length h - 5" by simp
  have n: "r = None \<Longrightarrow> h = []" by (simp add: h_def)
  show "mockExamHistory (loadMockExamHistory E u s) =
     rev (drop (length (case r of None \<Rightarrow> [] | Some h \<Rightarrow> h)
                - min 5 (length (case r of None \<Rightarrow> [] | Some h \<Rightarrow> h)))
            (case r of None \<Rightarrow> [] | Some h \<Rightarrow> h)) \<and>
   mockExamHistory (loadMockExamHistory E u s) =
     take (min 5 (length (case r of None \<Rightarrow> [] | Some h \<Rightarrow> h)))
       (rev (case r of None \<Rightarrow> [] | Some h \<Rightarrow> h)) \<and>
   length (mockExamHistory (loadMockExamHistory E u s)) =
     min 5 (length (case r of None \<Rightarrow> [] | Some h \<Rightarrow> h)) \<and>
   length (mockExamHistory (loadMockExamHistory E u s)) \<le> 5 \<and>
   (r = None \<longrightarrow> mockExamHistory (loadMockExamHistory E u s) = [])"
    unfolding h_def [symmetric] m d using n by (auto simp: take_rev min_def)
qed

text \<open>An instance: of seven stored results the last five are shown, the latest first.\<close>

theorem loadMockExamHistory_recent_witness:
  "mockExamHistory (loadMockExamHistory (memoryEnv sampleCategories) sampleUser (mounted sampleMemory)) =
     [JNum 7, JNum 6, JNum 5, JNum 4, JNum 3]"
proof -
  have g: "getItem_history (memoryEnv sampleCategories) (localStorage (mounted sampleMemory))
             (mockExamHistoryKey sampleUser) = Inr (Some sampleHistory)"
    by (simp add: memoryEnv_def mounted_def sampleMemory_def mockExamHistoryKey_def
        nickname_text_def sampleUser_def)
  have h: "sampleHistory = [JNum 1, JNum 2, JNum 3, JNum 4, JNum 5, JNum 6, JNum 7]"
    by (simp add: sampleHistory_def upt_rec)
  from loadMockExamHistory_recent [of "memoryEnv sampleCategories" "mounted sampleMemory" sampleUser "Some sampleHistory"] g
  show ?thesis by (simp add: h)
qed

subsection \<open>C9: study and mock categories\<close>

text \<open>
  C9. \<^verbatim>\<open>studyCategories\<close> and \<^verbatim>\<open>mockCategories\<close> split \<^verbatim>\<open>categories\<close>: each category
  occurs in the two lists together as often as in \<^verbatim>\<open>categories\<close>, no category is in
  both, a category is among the mock categories exactly when its name has \<^verbatim>\<open>Mock\<close> as
  a contiguous part, and both lists keep the order of \<^verbatim>\<open>categories\<close>.
\<close>

theorem categories_partition:
  "(\<forall>c. count_list (studyCategories cs) c + count_list (mockCategories cs) c = count_list cs c) \<and>
   set (studyCategories cs) \<union> set (mockCategories cs) = set cs \<and>
   set (studyCategories cs) \<inter> set (mockCategories cs) = {} \<and>
   (\<forall>c \<in> set cs. c \<in> set (mockCategories cs) \<longleftrightarrow> (\<exists>u v. name c = u @ ''Mock'' @ v)) \<and>
   (\<forall>c \<in> set cs. c \<in> set (studyCategories cs) \<longleftrightarrow> \<not> (\<exists>u v. name c = u @ ''Mock'' @ v)) \<and>
   subseq (studyCategories cs) cs \<and>
   subseq (mockCategories cs) cs"
proof (intro conjI allI ballI)
  show "count_list (studyCategories cs) c + count_list (mockCategories cs) c = count_list cs c" for c
    unfolding studyCategories_def mockCategories_def by (rule count_list_filter_split)
  show "set (studyCategories cs) \<union> set (mockCategories cs) = set cs"
    by (auto simp: studyCategories_def mockCategories_def)
  show "set (studyCategories cs) \<inter> set (mockCategories cs) = {}"
    by (auto simp: studyCategories_def mockCategories_def)
  show "c \<in> set (mockCategories cs) \<longleftrightarrow> (\<exists>u v. name c = u @ ''Mock'' @ v)" if "c \<in> set cs" for c
    using that by (simp add: mockCategories_def includes_str_iff)
  show "c \<in> set (studyCategories cs) \<longleftrightarrow> \<not> (\<exists>u v. name c = u @ ''Mock'' @ v)" if "c \<in> set cs" for c
    using that by (simp add: studyCategories_def includes_str_iff)
  show "subseq (studyCategories cs) cs" by (simp add: studyCategories_def)
  show "subseq (mockCategories cs) cs" by (simp add: mockCategories_def)
qed

text \<open>An instance: the two sample categories.\<close>

theorem categories_partition_witness:
  "studyCategories sampleCategories = [\<lparr>name = ''Regulations'', nameJa = None, totalQuestions = 40\<rparr>] \<and>
   mockCategories sampleCategories = [\<lparr>name = ''Mock 1'', nameJa = None, totalQuestions = 75\<rparr>] \<and>
   \<lparr>name = ''Mock 1'', nameJa = None, totalQuestions = 75\<rparr> \<in> set (mockCategories sampleCategories) \<and>
   (\<exists>u v. ''Mock 1'' = u @ ''Mock'' @ v)"
proof -
  let ?m = "\<lparr>name = ''Mock 1'', nameJa = None, totalQuestions = 75\<rparr>"
  have s: "studyCategories sampleCategories = [\<lparr>name = ''Regulations'', nameJa = None, totalQuestions = 40\<rparr>]"
    and m: "mockCategories sampleCategories = [?m]"
    by (simp_all add: studyCategories_def mockCategories_def sampleCategories_def)
  have "?m \<in> set sampleCategories" by (simp add: sampleCategories_def)
  with categories_partition [of sampleCategories] m
  have "\<exists>u v. name ?m = u @ ''Mock'' @ v" by (metis list.set_intros(1))
  with s m show ?thesis by simp
qed

subsection \<open>C10: the range of the accuracy\<close>

text \<open>
  C10. When \<open>0 \<le> correctAnswers \<le> totalQuestionsAnswered\<close>, \<^verbatim>\<open>calculateAccuracy\<close>
  returns an integer between 0 and 100. The freshly initialised progress has both
  counters zero, accuracy 0 and the label ``low''.
\<close>

theorem calculateAccuracy_range:
  "(0 \<le> correctAnswers p \<and> correctAnswers p \<le> totalQuestionsAnswered p \<longrightarrow>
      (\<exists>k. calculateAccuracy (Some p) = Finite (of_int k) \<and> 0 \<le> k \<and> k \<le> 100)) \<and>
   totalQuestionsAnswered (initialProgress cs) = 0 \<and>
   correctAnswers (initialProgress cs) = 0 \<and>
   calculateAccuracy (Some (initialProgress cs)) = Finite 0 \<and>
   calculatePassProbability (Some (initialProgress cs)) = str_low"
proof (intro conjI impI)
  assume h: "0 \<le> correctAnswers p \<and> correctAnswers p \<le> totalQuestionsAnswered p"
  show "\<exists>k. calculateAccuracy (Some p) = Finite (of_int k) \<and> 0 \<le> k \<and> k \<le> 100"
  proof (cases "totalQuestionsAnswered p = 0")
    case True
    then show ?thesis using calculateAccuracy_zero(2) [of p] by (intro exI [of _ 0]) simp
  next
    case False
    with h have b: "0 < totalQuestionsAnswered p" by simp
    from rounded_percent_range [OF _ _ b, of "correctAnswers p"] h calculateAccuracy_Some [OF False]
    show ?thesis by blast
  qed
next
  show z: "calculateAccuracy (Some (initialProgress cs)) = Finite 0"
    by (rule calculateAccuracy_zero) (simp add: initialProgress_def)
  show "calculatePassProbability (Some (initialProgress cs)) = str_low"
    by (simp add: calculatePassProbability_Finite [OF z])
qed (simp_all add: initialProgress_def)

text \<open>An instance: 23 correct answers out of 40.\<close>

theorem calculateAccuracy_range_witness:
  "\<exists>k. calculateAccuracy (Some (sampleProgress 23 40)) = Finite (of_int k) \<and> 0 \<le> k \<and> k \<le> 100"
  using calculateAccuracy_range [of "sampleProgress 23 40"] by (simp add: sampleProgress_def)

end
